theory Spec2Isabelle
  imports Complex_Main
begin

section \<open>Python strings\<close>

text \<open>
  A Python \<open>str\<close> is modelled as a \<open>string\<close>: one \<open>char\<close> stands for one code point,
  restricted to the code points 0..255. \<open>len\<close> is \<open>length\<close>, slicing \<open>s[:n]\<close> is
  \<open>take n s\<close>, \<open>+\<close> is \<open>@\<close>.
\<close>

definition nl :: char where
  "nl = CHR 0x0A"

text \<open>\<open>str.isspace\<close> on one code point below 256 (also the class \<open>\s\<close> of \<open>re\<close>).\<close>

definition is_space :: "char \<Rightarrow> bool" where
  "is_space c = (of_char c \<in> {9, 10, 11, 12, 13, 28, 29, 30, 31, 32, 133, 160 :: nat})"

text \<open>\<open>s.strip()\<close>\<close>

definition py_strip :: "string \<Rightarrow> string" where
  "py_strip s = rev (dropWhile is_space (rev (dropWhile is_space s)))"

text \<open>\<open>s.split()\<close>: the maximal runs of non-whitespace, in order; \<open>cur\<close> is the word being read.\<close>

fun split_acc :: "string \<Rightarrow> string \<Rightarrow> string list" where
  "split_acc cur [] = (if cur = [] then [] else [cur])"
| "split_acc cur (c # cs) =
     (if is_space c then (if cur = [] then split_acc [] cs else cur # split_acc [] cs)
      else split_acc (cur @ [c]) cs)"

definition py_split :: "string \<Rightarrow> string list" where
  "py_split s = split_acc [] s"

text \<open>\<open>sep.join(xs)\<close>\<close>

fun py_join :: "string \<Rightarrow> string list \<Rightarrow> string" where
  "py_join sep [] = []"
| "py_join sep [x] = x"
| "py_join sep (x # y # ys) = x @ sep @ py_join sep (y # ys)"

text \<open>
  \<open>re.split(r'\n\n+', text)\<close>: a separator is a maximal run of two or more newlines;
  \<open>cur\<close> is the piece being read. The empty pieces are kept, as \<open>re.split\<close> keeps them.
\<close>

function re_split_blank :: "string \<Rightarrow> string \<Rightarrow> string list" where
  "re_split_blank cur [] = [cur]"
| "re_split_blank cur [c] = [cur @ [c]]"
| "re_split_blank cur (c # d # cs) =
     (if c = nl \<and> d = nl then cur # re_split_blank [] (dropWhile (\<lambda>x. x = nl) cs)
      else re_split_blank (cur @ [c]) (d # cs))"
  by pat_completeness auto
termination
  by (relation "measure (\<lambda>(cur, s). length s)")
     (auto simp: le_imp_less_Suc length_dropWhile_le less_Suc_eq_le le_SucI)

text \<open>
  \<open>re.search(r'^PRE\s+(.+)$', text, re.MULTILINE)\<close> followed by \<open>.group(1).strip()\<close>, for a
  literal prefix \<open>PRE\<close> (\<open>#\<close> or \<open>##\<close>). \<open>header_at\<close> tries the match at one line start: the
  prefix, then whitespace (greedy, newlines included), then the rest of the line. When the
  whitespace run reaches the end of the text, the matcher backtracks to the last
  character of the run that is no newline, and the group is that one character.
\<close>

definition header_at :: "string \<Rightarrow> string \<Rightarrow> string option" where
  "header_at pre t =
     (if take (length pre) t \<noteq> pre then None
      else let rest = drop (length pre) t;
               run = takeWhile is_space rest;
               after = dropWhile is_space rest
           in if run = [] then None
              else if after \<noteq> [] then Some (py_strip (takeWhile (\<lambda>x. x \<noteq> nl) after))
              else if filter (\<lambda>x. x \<noteq> nl) (tl run) \<noteq> [] then Some (py_strip [last (filter (\<lambda>x. x \<noteq> nl) (tl run))])
              else None)"

fun header_search :: "string \<Rightarrow> bool \<Rightarrow> string \<Rightarrow> string option" where
  "header_search pre bol [] = None"
| "header_search pre bol (c # cs) =
     (case (if bol then header_at pre (c # cs) else None) of
        Some g \<Rightarrow> Some g
      | None \<Rightarrow> header_search pre (c = nl) cs)"

section \<open>Segmentation: \<open>app/services/chunking.py\<close>\<close>

text \<open>The dataclass \<open>Chunk\<close>; the fields carry the prefix \<open>c_\<close>.\<close>

record Chunk =
  c_text :: string
  c_source_file :: string
  c_chapter :: "string option"
  c_section :: "string option"
  c_position :: int
  c_token_count :: int
  c_embedding :: "real list option"

text \<open>\<open>ChunkingService\<close> after \<open>__init__\<close>: its two attributes.\<close>

record ChunkingService =
  chunk_size :: int
  chunk_overlap :: int

text \<open>
  \<open>__init__\<close>: \<open>chunk_size or settings.chunk_size\<close>, so an argument that is \<open>None\<close> or \<open>0\<close>
  gives the setting.
\<close>

definition ChunkingService_init :: "int option \<Rightarrow> int option \<Rightarrow> int \<Rightarrow> int \<Rightarrow> ChunkingService" where
  "ChunkingService_init size_arg overlap_arg settings_chunk_size settings_chunk_overlap =
     \<lparr>chunk_size = (case size_arg of None \<Rightarrow> settings_chunk_size
                     | Some n \<Rightarrow> if n = 0 then settings_chunk_size else n),
      chunk_overlap = (case overlap_arg of None \<Rightarrow> settings_chunk_overlap
                     | Some n \<Rightarrow> if n = 0 then settings_chunk_overlap else n)\<rparr>"

definition split_into_paragraphs :: "string \<Rightarrow> string list" where
  "split_into_paragraphs t = map py_strip (filter (\<lambda>p. py_strip p \<noteq> []) (re_split_blank [] t))"

definition extract_chapter :: "string \<Rightarrow> string option" where
  "extract_chapter t = header_search ''#'' True t"

definition extract_section :: "string \<Rightarrow> string option" where
  "extract_section t = header_search ''##'' True t"

text \<open>\<open>words[-n:]\<close> for \<open>n > 0\<close> is the last \<open>n\<close> words, all of them when there are fewer.\<close>

definition get_overlap_text :: "ChunkingService \<Rightarrow> string \<Rightarrow> string" where
  "get_overlap_text svc t =
     (let words = py_split t;
          overlap_words = (if chunk_overlap svc > 0
                           then drop (length words - nat (chunk_overlap svc)) words else [])
      in py_join '' '' overlap_words)"

definition estimate_tokens :: "string \<Rightarrow> int" where
  "estimate_tokens t = int (length t) div 4"

definition make_chunk :: "string \<Rightarrow> string \<Rightarrow> int \<Rightarrow> Chunk" where
  "make_chunk current_chunk source current_position =
     \<lparr>c_text = py_strip current_chunk,
      c_source_file = source,
      c_chapter = extract_chapter current_chunk,
      c_section = extract_section current_chunk,
      c_position = current_position,
      c_token_count = estimate_tokens current_chunk,
      c_embedding = None\<rparr>"

text \<open>
  The body of the loop of \<open>chunk_text\<close>, for one paragraph; the state is
  \<open>(chunks, current_chunk, current_position)\<close>.
\<close>

definition chunk_step ::
  "ChunkingService \<Rightarrow> string \<Rightarrow> Chunk list \<times> string \<times> int \<Rightarrow> string
   \<Rightarrow> Chunk list \<times> string \<times> int" where
  "chunk_step svc source st paragraph =
     (case st of (chunks, current_chunk, current_position) \<Rightarrow>
      if int (length current_chunk) + int (length paragraph) > chunk_size svc then
        (let chunks1 = (if current_chunk \<noteq> []
                        then chunks @ [make_chunk current_chunk source current_position]
                        else chunks);
             position1 = (if current_chunk \<noteq> [] then current_position + 1
                          else current_position)
         in if chunk_overlap svc > 0 \<and> length chunks1 > 0
            then (chunks1, get_overlap_text svc current_chunk @ [nl, nl] @ paragraph, position1)
            else (chunks1, paragraph, position1))
      else (chunks,
            if current_chunk \<noteq> [] then current_chunk @ [nl, nl] @ paragraph else paragraph,
            current_position))"

fun chunk_loop ::
  "ChunkingService \<Rightarrow> string \<Rightarrow> Chunk list \<times> string \<times> int \<Rightarrow> string list
   \<Rightarrow> Chunk list \<times> string \<times> int" where
  "chunk_loop svc source st [] = st"
| "chunk_loop svc source st (paragraph # ps) =
     chunk_loop svc source (chunk_step svc source st paragraph) ps"

definition chunk_text :: "ChunkingService \<Rightarrow> string \<Rightarrow> string \<Rightarrow> Chunk list" where
  "chunk_text svc t source =
     (case chunk_loop svc source ([], [], 0) (split_into_paragraphs t) of
        (chunks, current_chunk, current_position) \<Rightarrow>
          if py_strip current_chunk \<noteq> []
          then chunks @ [make_chunk current_chunk source current_position]
          else chunks)"

text \<open>
  Exceptions: what a service raised, and the two that the code itself can raise. All of
  them are instances of \<open>Exception\<close>, which is what the handlers of \<open>except Exception\<close>
  catch.
\<close>

datatype exn = ServiceError string | RuntimeError string | AttributeError string

fun str_exn :: "exn \<Rightarrow> string" where
  "str_exn (ServiceError m) = m"
| "str_exn (RuntimeError m) = m"
| "str_exn (AttributeError m) = m"

text \<open>
  \<open>BookIngestionOrchestrator._process_files\<close> of \<open>scripts/ingest_book.py\<close>: a file is its
  path with the outcome of \<open>read_text\<close>; a file that cannot be read is skipped. The result is
  \<open>self.chunks\<close>.
\<close>

fun renumber :: "int \<Rightarrow> Chunk list \<Rightarrow> Chunk list \<times> int" where
  "renumber position [] = ([], position)"
| "renumber position (chunk # chunks) =
     (case renumber (position + 1) chunks of
        (chunks', position') \<Rightarrow> (chunk\<lparr>c_position := position\<rparr> # chunks', position'))"

fun process_files ::
  "ChunkingService \<Rightarrow> Chunk list \<Rightarrow> int \<Rightarrow> (string \<times> (exn + string)) list \<Rightarrow> Chunk list" where
  "process_files svc self_chunks position [] = self_chunks"
| "process_files svc self_chunks position ((file_path, content) # files) =
     (case content of
        Inl e \<Rightarrow> process_files svc self_chunks position files
      | Inr t \<Rightarrow>
          (case renumber position (chunk_text svc t file_path) of
             (chunks, position') \<Rightarrow> process_files svc (self_chunks @ chunks) position' files))"

section \<open>Requests, citations and responses: \<open>app/models/chat.py\<close>\<close>

record Citation =
  cit_chunk_id :: string
  cit_text :: string
  cit_source :: string
  cit_chapter :: "string option"
  cit_section :: "string option"
  cit_score :: real

record ChatRequest =
  query :: string
  selected_text :: "string option"
  book_id :: "string option"
  mode :: string
  max_chunks :: int

text \<open>
  The response; \<open>latency_ms\<close> is a reading of the clock and is left out. The dictionary
  that \<open>RAGAgent.chat\<close> returns has the same keys.
\<close>

record ChatResponse =
  r_answer :: string
  r_citations :: "Citation list"
  r_mode :: string
  r_chunks_retrieved :: int
  r_model_used :: string

text \<open>
  The body of a request before validation: a field that is absent is \<open>None\<close>.
  \<open>ChatRequest_validate\<close> is the validation that the \<open>Field\<close> declarations of \<open>ChatRequest\<close>
  ask for, with their defaults; \<open>None\<close> is a rejected request.
\<close>

record RawRequest =
  raw_query :: string
  raw_selected_text :: "string option"
  raw_book_id :: "string option"
  raw_mode :: "string option"
  raw_max_chunks :: "int option"

definition ChatRequest_validate :: "RawRequest \<Rightarrow> ChatRequest option" where
  "ChatRequest_validate raw =
     (let m = (case raw_mode raw of None \<Rightarrow> ''full_book'' | Some v \<Rightarrow> v);
          k = (case raw_max_chunks raw of None \<Rightarrow> 5 | Some v \<Rightarrow> v)
      in if length (raw_query raw) < 1 \<or> length (raw_query raw) > 1000 then None
         else if (case raw_selected_text raw of None \<Rightarrow> False | Some t \<Rightarrow> length t > 5000) then None
         else if m \<noteq> ''full_book'' \<and> m \<noteq> ''selected_text'' then None
         else if k < 1 \<or> k > 20 then None
         else Some \<lparr>query = raw_query raw, selected_text = raw_selected_text raw,
                     book_id = raw_book_id raw, mode = m, max_chunks = k\<rparr>)"

section \<open>Mode router: \<open>app/agents/router.py\<close>\<close>

definition detect_mode :: "ChatRequest \<Rightarrow> string" where
  "detect_mode request =
     (if mode request \<noteq> [] then mode request
      else if (case selected_text request of None \<Rightarrow> False
               | Some t \<Rightarrow> t \<noteq> [] \<and> py_strip t \<noteq> [])
      then ''selected_text''
      else ''full_book'')"

text \<open>
  The router as the specification words it, on the mode field as the caller gave it
  (\<open>None\<close>: absent) and the selected text.
\<close>

definition spec_mode_router :: "string option \<Rightarrow> string option \<Rightarrow> string" where
  "spec_mode_router mode_field sel =
     (case mode_field of
        Some m \<Rightarrow> m
      | None \<Rightarrow> (case sel of None \<Rightarrow> ''full_book''
                 | Some t \<Rightarrow> if py_strip t \<noteq> [] then ''selected_text'' else ''full_book''))"

section \<open>External services: \<open>app/services/cohere_service.py\<close>, \<open>qdrant_service.py\<close>\<close>

text \<open>
  The payload of an indexed point, with the keys that the ingestion writes
  (\<open>chunk_id\<close>, \<open>text\<close> and \<open>source_file\<close> are always strings there), and a search hit.
\<close>

record Payload =
  p_chunk_id :: string
  p_text :: string
  p_source_file :: string
  p_chapter :: "string option"
  p_section :: "string option"
  p_position :: int

record ScoredPoint =
  sp_payload :: Payload
  sp_score :: real

record message =
  role :: string
  content :: string

text \<open>
  The three remote calls are parameters: the embedding endpoint, the index query (vector,
  limit, filter on \<open>book_id\<close>, score threshold) and the chat completion. Each either raises
  or returns; one request calls each of them at most once, so a function of the arguments
  describes them. \<open>qdrant_client_ready\<close> says whether \<open>QdrantService.client\<close> is set.
  Scores are floats in the code and reals here; the code only copies them, sets the
  constants 0.0 and 1.0, and compares with 0.4.
\<close>

record Services =
  client_embed :: "string \<Rightarrow> exn + real list"
  client_query_points :: "real list \<Rightarrow> int \<Rightarrow> string option \<Rightarrow> real option \<Rightarrow> exn + ScoredPoint list"
  client_chat :: "message list \<Rightarrow> exn + string"
  qdrant_client_ready :: bool
  chat_model :: string

text \<open>
  A computation returns the calls it made to the three services, in order, and either an
  exception or a value.
\<close>

datatype call =
  EmbedCall string
| SearchCall "real list" int "real option" "string option"
| ChatCall "message list"

type_synonym 'a eff = "call list \<times> (exn + 'a)"

definition return_eff :: "'a \<Rightarrow> 'a eff" where
  "return_eff x = ([], Inr x)"

definition bind_eff :: "'a eff \<Rightarrow> ('a \<Rightarrow> 'b eff) \<Rightarrow> 'b eff" where
  "bind_eff m f =
     (case m of
        (l, Inl e) \<Rightarrow> (l, Inl e)
      | (l, Inr x) \<Rightarrow> (case f x of (l', r) \<Rightarrow> (l @ l', r)))"

definition embed_text :: "Services \<Rightarrow> string \<Rightarrow> real list eff" where
  "embed_text svc t = ([EmbedCall t], client_embed svc t)"

definition cohere_chat :: "Services \<Rightarrow> message list \<Rightarrow> string eff" where
  "cohere_chat svc messages = ([ChatCall messages], client_chat svc messages)"

definition qdrant_search ::
  "Services \<Rightarrow> real list \<Rightarrow> int \<Rightarrow> real option \<Rightarrow> string option \<Rightarrow> ScoredPoint list eff" where
  "qdrant_search svc query_vector limit score_threshold bid =
     ([SearchCall query_vector limit score_threshold bid],
      if \<not> qdrant_client_ready svc then Inl (RuntimeError ''Qdrant client not initialized'')
      else client_query_points svc query_vector limit
             (case bid of None \<Rightarrow> None | Some b \<Rightarrow> if b = [] then None else Some b)
             score_threshold)"

section \<open>Retriever: \<open>app/agents/retriever.py\<close>\<close>

text \<open>
  A retrieved chunk is a dictionary; a key that a producer does not set is \<open>None\<close> here
  (\<open>position\<close> in \<open>api/chat.py\<close>; \<open>score\<close> is set by both producers).
\<close>

record RetrievedChunk =
  rc_chunk_id :: string
  rc_text :: string
  rc_source_file :: string
  rc_chapter :: "string option"
  rc_section :: "string option"
  rc_position :: "int option"
  rc_score :: "real option"

definition retrieve ::
  "Services \<Rightarrow> string \<Rightarrow> string option \<Rightarrow> int \<Rightarrow> real option \<Rightarrow> RetrievedChunk list eff" where
  "retrieve svc q bid top_k score_threshold =
     bind_eff (embed_text svc q) (\<lambda>query_embedding.
     bind_eff (qdrant_search svc query_embedding top_k score_threshold bid) (\<lambda>results.
     return_eff (map (\<lambda>result.
        \<lparr>rc_chunk_id = p_chunk_id (sp_payload result),
         rc_text = p_text (sp_payload result),
         rc_source_file = p_source_file (sp_payload result),
         rc_chapter = p_chapter (sp_payload result),
         rc_section = p_section (sp_payload result),
         rc_position = Some (p_position (sp_payload result)),
         rc_score = Some (sp_score result)\<rparr>) results)))"

section \<open>Selected-passage handler: \<open>app/agents/selected_text.py\<close>\<close>

record AdditionalChunk =
  ac_chunk_id :: string
  ac_text :: string
  ac_source :: string
  ac_score :: real

record SelectedTextResult =
  forced_context :: string
  st_selected_text :: string
  additional_chunks :: "AdditionalChunk list"
  st_mode :: string

text \<open>
  \<open>selected_text\<close> is declared \<open>str\<close>, and \<open>RAGAgent\<close> passes \<open>request.selected_text\<close>, which
  may be \<open>None\<close>: then \<open>.strip()\<close> raises.
\<close>

definition NoneType_strip_error :: exn where
  "NoneType_strip_error =
     AttributeError ([CHR 0x27] @ ''NoneType'' @ [CHR 0x27] @ '' object has no attribute ''
                     @ [CHR 0x27] @ ''strip'' @ [CHR 0x27])"

definition answer_with_selected_text ::
  "Services \<Rightarrow> string \<Rightarrow> string option \<Rightarrow> string option \<Rightarrow> bool \<Rightarrow> SelectedTextResult eff" where
  "answer_with_selected_text svc q sel bid retrieve_additional =
     (case sel of
        None \<Rightarrow> ([], Inl NoneType_strip_error)
      | Some raw \<Rightarrow>
         (let sel_text = take 5000 (py_strip raw);
              forced = ''[Selected Text]'' @ [nl] @ sel_text @ [nl]
          in bind_eff
               (if retrieve_additional
                then bind_eff (embed_text svc sel_text) (\<lambda>selected_embedding.
                     bind_eff (qdrant_search svc selected_embedding 3 None bid) (\<lambda>results.
                     return_eff (map (\<lambda>r.
                        \<lparr>ac_chunk_id = p_chunk_id (sp_payload r),
                         ac_text = p_text (sp_payload r),
                         ac_source = p_source_file (sp_payload r),
                         ac_score = sp_score r\<rparr>) results)))
                else return_eff [])
               (\<lambda>additional.
                  return_eff \<lparr>forced_context = forced, st_selected_text = sel_text,
                              additional_chunks = additional, st_mode = ''selected_text''\<rparr>)))"

section \<open>Answer orchestrator: \<open>app/agents/rag_agent.py\<close>\<close>

definition dq :: string where
  "dq = [CHR 0x22]"

definition SYSTEM_PROMPT :: string where
  "SYSTEM_PROMPT = py_join [nl]
     [''You are a helpful AI assistant that answers questions based ONLY on the provided book content.'',
      [],
      ''CRITICAL RULES:'',
      ''1. You MUST answer questions using ONLY the retrieved book passages provided in the context'',
      ''2. Every answer MUST include citations to specific book passages'',
      ''3. If the retrieved passages do not contain information to answer the question, respond with: ''
        @ dq @ ''I cannot answer this from the book content provided'' @ dq,
      ''4. DO NOT use any outside knowledge or information not present in the retrieved passages'',
      ''5. DO NOT make up or hallucinate information'',
      [],
      ''Response Format:'',
      ''- Provide a clear, direct answer to the question'',
      ''- Include citations in format: [Chapter Name](source_file) or [Section Name](source_file)'',
      ''- If multiple passages are relevant, synthesize information from all of them'',
      [],
      ''Remember: Your goal is to be accurate and helpful while staying strictly grounded in the provided book content.'']"

definition FALLBACK_RESPONSE :: string where
  "FALLBACK_RESPONSE = ''I cannot answer this from the book content provided.''"

text \<open>The dictionary that the two paths of \<open>RAGAgent\<close> return.\<close>

record PathResult =
  pr_answer :: string
  pr_citations :: "Citation list"
  pr_chunks_retrieved :: int

definition RAGAgent_build_context :: "RetrievedChunk list \<Rightarrow> string" where
  "RAGAgent_build_context chunks =
     py_join [nl, nl] (map (\<lambda>chunk.
        (let source = ''['' @ rc_source_file chunk;
             source = (case rc_chapter chunk of
                         None \<Rightarrow> source
                       | Some ch \<Rightarrow> if ch = [] then source else source @ '' - '' @ ch)
         in source @ [nl] @ rc_text chunk)) chunks)"

definition RAGAgent_extract_citations :: "RetrievedChunk list \<Rightarrow> Citation list" where
  "RAGAgent_extract_citations chunks =
     map (\<lambda>chunk.
       \<lparr>cit_chunk_id = rc_chunk_id chunk,
        cit_text = (if length (rc_text chunk) > 200 then take 200 (rc_text chunk) @ ''...''
                    else rc_text chunk),
        cit_source = rc_source_file chunk,
        cit_chapter = rc_chapter chunk,
        cit_section = rc_section chunk,
        cit_score = (case rc_score chunk of None \<Rightarrow> 0 | Some v \<Rightarrow> v)\<rparr>) chunks"

definition user_message :: "string \<Rightarrow> string \<Rightarrow> string" where
  "user_message context q = ''Context:'' @ [nl] @ context @ [nl, nl] @ ''Question: '' @ q"

definition chat_full_book :: "Services \<Rightarrow> ChatRequest \<Rightarrow> PathResult eff" where
  "chat_full_book svc request =
     bind_eff (retrieve svc (query request) (book_id request) (max_chunks request) None) (\<lambda>chunks.
       if chunks = []
       then return_eff \<lparr>pr_answer = FALLBACK_RESPONSE, pr_citations = [], pr_chunks_retrieved = 0\<rparr>
       else
         bind_eff (cohere_chat svc
                    [\<lparr>role = ''system'', content = SYSTEM_PROMPT\<rparr>,
                     \<lparr>role = ''user'',
                      content = user_message (RAGAgent_build_context chunks) (query request)\<rparr>])
           (\<lambda>answer.
              return_eff \<lparr>pr_answer = answer,
                          pr_citations = RAGAgent_extract_citations chunks,
                          pr_chunks_retrieved = int (length chunks)\<rparr>))"

text \<open>
  \<open>_chat_with_selected_text\<close>. After the handler has returned, \<open>request.selected_text\<close> is a
  string (the handler raises on \<open>None\<close>); the synthetic citation is cut from the request's
  text as it came, not from the trimmed one.
\<close>

definition chat_with_selected_text :: "Services \<Rightarrow> ChatRequest \<Rightarrow> PathResult eff" where
  "chat_with_selected_text svc request =
     bind_eff (answer_with_selected_text svc (query request) (selected_text request)
                 (book_id request) True) (\<lambda>result.
       (let sel = (case selected_text request of None \<Rightarrow> [] | Some t \<Rightarrow> t);
            context = forced_context result;
            context = (if additional_chunks result \<noteq> []
                       then context @ [nl, nl] @ ''[Additional Relevant Content]'' @ [nl]
                            @ py_join [nl, nl]
                                (map (\<lambda>ch. ''['' @ ac_source ch @ ''] '' @ ac_text ch)
                                   (additional_chunks result))
                       else context)
        in bind_eff (cohere_chat svc
                      [\<lparr>role = ''system'', content = SYSTEM_PROMPT\<rparr>,
                       \<lparr>role = ''user'', content = user_message context (query request)\<rparr>])
             (\<lambda>answer.
                return_eff
                  \<lparr>pr_answer = answer,
                   pr_citations =
                     \<lparr>cit_chunk_id = ''selected'',
                      cit_text = (if length sel > 200 then take 200 sel @ ''...'' else sel),
                      cit_source = ''User Selection'',
                      cit_chapter = None,
                      cit_section = None,
                      cit_score = 1\<rparr>
                     # map (\<lambda>ch.
                         \<lparr>cit_chunk_id = ac_chunk_id ch,
                          cit_text = (if length (ac_text ch) > 200
                                      then take 200 (ac_text ch) @ ''...'' else ac_text ch),
                          cit_source = ac_source ch,
                          cit_chapter = None,
                          cit_section = None,
                          cit_score = ac_score ch\<rparr>) (additional_chunks result),
                   pr_chunks_retrieved = int (length (additional_chunks result)) + 1\<rparr>)))"

text \<open>
  \<open>RAGAgent.chat\<close>: the \<open>try\<close> block, and the handler of \<open>except Exception\<close>. It always
  returns a response; the calls made are returned with it.
\<close>

definition chat :: "Services \<Rightarrow> ChatRequest \<Rightarrow> string \<Rightarrow> call list \<times> ChatResponse" where
  "chat svc request md =
     (case (if md = ''selected_text''
               \<and> (case selected_text request of None \<Rightarrow> False | Some t \<Rightarrow> t \<noteq> [])
            then chat_with_selected_text svc request
            else chat_full_book svc request) of
        (l, Inr result) \<Rightarrow>
          (l, \<lparr>r_answer = pr_answer result, r_citations = pr_citations result, r_mode = md,
               r_chunks_retrieved = pr_chunks_retrieved result, r_model_used = chat_model svc\<rparr>)
      | (l, Inl e) \<Rightarrow>
          (l, \<lparr>r_answer = FALLBACK_RESPONSE, r_citations = [], r_mode = md,
               r_chunks_retrieved = 0, r_model_used = chat_model svc\<rparr>))"


section \<open>HTTP endpoint: \<open>app/api/chat.py\<close>\<close>

definition RAG_SYSTEM_PROMPT :: string where
  "RAG_SYSTEM_PROMPT = py_join [nl]
     [''You are a helpful AI assistant that answers questions based on the provided book passages.'',
      [],
      ''CRITICAL RULES:'',
      ''1. You MUST answer questions using ONLY the retrieved book passages provided in the context'',
      ''2. If the passages do not contain information to answer the question, say '' @ dq
        @ ''Based on the provided content, I don'' @ [CHR 0x27]
        @ ''t have enough information to answer this question.'' @ dq,
      ''3. DO NOT use outside knowledge or information not present in the retrieved passages'',
      ''4. DO NOT make up or hallucinate information'',
      [],
      ''Response Format:'',
      ''- Provide a clear, direct answer to the question'',
      ''- Reference the passages you used in your answer'',
      ''- Synthesize information from multiple passages if relevant'']"

definition SIMPLE_SYSTEM_PROMPT :: string where
  "SIMPLE_SYSTEM_PROMPT = py_join [nl]
     [''You are a helpful AI assistant.'',
      [],
      ''Your role is to:'',
      ''- Answer questions clearly and concisely'',
      ''- Provide practical examples when relevant'',
      ''- Be friendly and conversational'',
      ''- Help users with software development, AI, and technical topics'',
      ''- If you don'' @ [CHR 0x27] @ ''t know something specific, be honest about it'']"

definition retrieve_context :: "Services \<Rightarrow> string \<Rightarrow> string option \<Rightarrow> int \<Rightarrow> RetrievedChunk list eff" where
  "retrieve_context svc q bid top_k =
     bind_eff (embed_text svc q) (\<lambda>query_embedding.
     bind_eff (qdrant_search svc query_embedding top_k None bid) (\<lambda>results.
     return_eff (map (\<lambda>result.
        \<lparr>rc_chunk_id = p_chunk_id (sp_payload result),
         rc_text = p_text (sp_payload result),
         rc_source_file = p_source_file (sp_payload result),
         rc_chapter = p_chapter (sp_payload result),
         rc_section = p_section (sp_payload result),
         rc_position = None,
         rc_score = Some (sp_score result)\<rparr>) results)))"

definition build_context :: "RetrievedChunk list \<Rightarrow> string" where
  "build_context chunks =
     py_join [nl, nl] (map (\<lambda>chunk.
        (let source = ''['' @ rc_source_file chunk;
             source = (case rc_chapter chunk of
                         None \<Rightarrow> source
                       | Some ch \<Rightarrow> if ch = [] then source else source @ '' - '' @ ch)
         in source @ [nl] @ rc_text chunk)) chunks)"

definition extract_citations :: "RetrievedChunk list \<Rightarrow> Citation list" where
  "extract_citations chunks =
     map (\<lambda>chunk.
       \<lparr>cit_chunk_id = rc_chunk_id chunk,
        cit_text = (if length (rc_text chunk) > 200 then take 200 (rc_text chunk) @ ''...''
                    else rc_text chunk),
        cit_source = rc_source_file chunk,
        cit_chapter = rc_chapter chunk,
        cit_section = rc_section chunk,
        cit_score = (case rc_score chunk of None \<Rightarrow> 0 | Some v \<Rightarrow> v)\<rparr>) chunks"

text \<open>
  The \<open>try\<close> block of \<open>rag_chat\<close>; \<open>request.max_chunks or 5\<close> replaces a zero;
  \<open>c.get("score", 0) >= 0.4\<close> is the relevance filter.
\<close>

definition rag_chat_body :: "Services \<Rightarrow> ChatRequest \<Rightarrow> ChatResponse eff" where
  "rag_chat_body svc request =
     bind_eff (retrieve_context svc (query request) (book_id request)
                 (if max_chunks request = 0 then 5 else max_chunks request)) (\<lambda>chunks.
       (let relevant_chunks =
              filter (\<lambda>c. (case rc_score c of None \<Rightarrow> 0 | Some v \<Rightarrow> v) \<ge> 4 / 10) chunks
        in if relevant_chunks \<noteq> []
           then
             bind_eff (cohere_chat svc
                        [\<lparr>role = ''system'', content = RAG_SYSTEM_PROMPT\<rparr>,
                         \<lparr>role = ''user'',
                          content = user_message (build_context relevant_chunks) (query request)\<rparr>])
               (\<lambda>answer.
                  return_eff \<lparr>r_answer = answer,
                              r_citations = extract_citations relevant_chunks,
                              r_mode = ''rag'',
                              r_chunks_retrieved = int (length relevant_chunks),
                              r_model_used = chat_model svc\<rparr>)
           else
             bind_eff (cohere_chat svc
                        [\<lparr>role = ''system'', content = SIMPLE_SYSTEM_PROMPT\<rparr>,
                         \<lparr>role = ''user'', content = query request\<rparr>])
               (\<lambda>answer.
                  return_eff \<lparr>r_answer = answer,
                              r_citations = [],
                              r_mode = ''simple'',
                              r_chunks_retrieved = 0,
                              r_model_used = chat_model svc\<rparr>)))"

text \<open>\<open>rag_chat\<close> with its handler of \<open>except Exception\<close>.\<close>

definition rag_chat :: "Services \<Rightarrow> ChatRequest \<Rightarrow> call list \<times> ChatResponse" where
  "rag_chat svc request =
     (case rag_chat_body svc request of
        (l, Inr response) \<Rightarrow> (l, response)
      | (l, Inl e) \<Rightarrow>
          (l, \<lparr>r_answer = ''Sorry, I encountered an error: '' @ str_exn e,
               r_citations = [],
               r_mode = ''rag'',
               r_chunks_retrieved = 0,
               r_model_used = chat_model svc\<rparr>))"

section \<open>Reading the call log\<close>

text \<open>
  The exception that a logged call raised, if it raised; the first exception raised in a
  log; whether a call is a call of the generative model.
\<close>

fun call_exn :: "Services \<Rightarrow> call \<Rightarrow> exn option" where
  "call_exn svc (EmbedCall t) =
     (case snd (embed_text svc t) of Inl e \<Rightarrow> Some e | Inr v \<Rightarrow> None)"
| "call_exn svc (SearchCall v k thr bid) =
     (case snd (qdrant_search svc v k thr bid) of Inl e \<Rightarrow> Some e | Inr v \<Rightarrow> None)"
| "call_exn svc (ChatCall ms) =
     (case snd (cohere_chat svc ms) of Inl e \<Rightarrow> Some e | Inr v \<Rightarrow> None)"

fun first_raise :: "Services \<Rightarrow> call list \<Rightarrow> exn option" where
  "first_raise svc [] = None"
| "first_raise svc (c # cs) =
     (case call_exn svc c of Some e \<Rightarrow> Some e | None \<Rightarrow> first_raise svc cs)"

fun is_chat_call :: "call \<Rightarrow> bool" where
  "is_chat_call (ChatCall ms) = True"
| "is_chat_call c = False"

text \<open>A computation is exact when an exception raised by one of its calls is its outcome.\<close>

definition exact :: "Services \<Rightarrow> 'a eff \<Rightarrow> bool" where
  "exact svc m = (case first_raise svc (fst m) of None \<Rightarrow> True | Some e \<Rightarrow> snd m = Inl e)"

text \<open>
  A computation is tight when its outcome is an exception exactly when one of its calls
  raised, and then the exception of that call.
\<close>

definition tight :: "Services \<Rightarrow> 'a eff \<Rightarrow> bool" where
  "tight svc m = (first_raise svc (fst m) = (case snd m of Inl e \<Rightarrow> Some e | Inr x \<Rightarrow> None))"

text \<open>What \<open>RAGAgent.chat\<close> makes of the outcome of the path it took.\<close>

definition finish_chat :: "Services \<Rightarrow> string \<Rightarrow> PathResult eff \<Rightarrow> call list \<times> ChatResponse" where
  "finish_chat svc md m =
     (fst m,
      case snd m of
        Inr result \<Rightarrow>
          \<lparr>r_answer = pr_answer result, r_citations = pr_citations result, r_mode = md,
           r_chunks_retrieved = pr_chunks_retrieved result, r_model_used = chat_model svc\<rparr>
      | Inl e \<Rightarrow>
          \<lparr>r_answer = FALLBACK_RESPONSE, r_citations = [], r_mode = md,
           r_chunks_retrieved = 0, r_model_used = chat_model svc\<rparr>)"

text \<open>The snippet rule as the specification words it.\<close>

definition spec_snippet :: "string \<Rightarrow> string" where
  "spec_snippet t = (if length t > 200 then take 200 t @ ''...'' else t)"

section \<open>Example inputs\<close>

definition example_point :: ScoredPoint where
  "example_point =
     \<lparr>sp_payload = \<lparr>p_chunk_id = ''book-0'', p_text = replicate 201 CHR ''a'',
                     p_source_file = ''ch1.md'', p_chapter = Some ''Ch1'', p_section = None,
                     p_position = 0\<rparr>,
      sp_score = 1 / 2\<rparr>"

definition ok_services :: Services where
  "ok_services =
     \<lparr>client_embed = (\<lambda>t. Inr [1]),
      client_query_points = (\<lambda>v k f thr. Inr [example_point]),
      client_chat = (\<lambda>ms. Inr ''An answer.''),
      qdrant_client_ready = True,
      chat_model = ''command-a-03-2025''\<rparr>"

definition empty_index_services :: Services where
  "empty_index_services =
     \<lparr>client_embed = (\<lambda>t. Inr [1]),
      client_query_points = (\<lambda>v k f thr. Inr []),
      client_chat = (\<lambda>ms. Inr ''X is a letter.''),
      qdrant_client_ready = True,
      chat_model = ''command-a-03-2025''\<rparr>"

definition failing_services :: Services where
  "failing_services =
     \<lparr>client_embed = (\<lambda>t. Inl (ServiceError ''Connection error.'')),
      client_query_points = (\<lambda>v k f thr. Inr [example_point]),
      client_chat = (\<lambda>ms. Inr ''An answer.''),
      qdrant_client_ready = True,
      chat_model = ''command-a-03-2025''\<rparr>"

definition example_request :: ChatRequest where
  "example_request =
     \<lparr>query = ''What is X?'', selected_text = None, book_id = None,
      mode = ''full_book'', max_chunks = 5\<rparr>"

definition selected_request :: ChatRequest where
  "selected_request =
     \<lparr>query = ''What is X?'', selected_text = Some '' X is a letter. '', book_id = None,
      mode = ''selected_text'', max_chunks = 5\<rparr>"

definition test_service :: ChunkingService where
  "test_service = \<lparr>chunk_size = 100, chunk_overlap = 20\<rparr>"

definition three_paragraphs :: string where
  "three_paragraphs = replicate 60 CHR ''A'' @ [nl, nl] @ replicate 60 CHR ''B'' @ [nl, nl]
                      @ replicate 60 CHR ''C''"

definition five_paragraphs :: string where
  "five_paragraphs = replicate 100 CHR ''a'' @ [nl, nl] @ replicate 100 CHR ''b'' @ [nl, nl]
     @ replicate 100 CHR ''c'' @ [nl, nl] @ replicate 100 CHR ''d'' @ [nl, nl]
     @ replicate 100 CHR ''e''"

text \<open>The text of \<open>test_fixed_size_chunking\<close> in \<open>tests/unit/test_chunking.py\<close>.\<close>

definition test_fixed_size_text :: string where
  "test_fixed_size_text = replicate 200 CHR ''A'' @ [nl, nl] @ replicate 200 CHR ''B'' @ [nl, nl]
     @ replicate 200 CHR ''C''"

section \<open>Properties of the answer paths\<close>

lemmas eff_defs = bind_eff_def return_eff_def embed_text_def qdrant_search_def cohere_chat_def

lemma bind_eff_Inr:
  "bind_eff m f = (l, Inr y) \<longleftrightarrow>
     (\<exists>l1 x l2. m = (l1, Inr x) \<and> f x = (l2, Inr y) \<and> l = l1 @ l2)"
  by (cases m; cases "snd m") (auto simp: bind_eff_def split: prod.splits sum.splits)

lemma return_eff_eq: "return_eff x = (l, r) \<longleftrightarrow> l = [] \<and> r = Inr x"
  by (auto simp: return_eff_def)

lemma first_raise_append:
  "first_raise svc (l @ l') =
     (case first_raise svc l of Some e \<Rightarrow> Some e | None \<Rightarrow> first_raise svc l')"
  by (induction l) (auto split: option.splits)

lemma exact_return: "exact svc (return_eff x)"
  by (simp add: exact_def return_eff_def)

lemma exact_embed: "exact svc (embed_text svc t)"
  by (auto simp: exact_def embed_text_def split: sum.splits)

lemma exact_search: "exact svc (qdrant_search svc v k thr bid)"
  by (auto simp: exact_def qdrant_search_def split: sum.splits)

lemma exact_chat: "exact svc (cohere_chat svc ms)"
  by (auto simp: exact_def cohere_chat_def split: sum.splits)

lemma exact_bind:
  assumes "exact svc m" and "\<And>x. exact svc (f x)"
  shows "exact svc (bind_eff m f)"
proof (cases m)
  case (Pair l r)
  show ?thesis
  proof (cases r)
    case (Inl e)
    with Pair assms(1) show ?thesis
      by (auto simp: exact_def bind_eff_def split: option.splits)
  next
    case (Inr x)
    obtain l' r' where fx: "f x = (l', r')" by (cases "f x")
    from assms(1) Pair Inr have "first_raise svc l = None"
      by (auto simp: exact_def split: option.splits)
    moreover from assms(2)[of x] fx
    have "case first_raise svc l' of None \<Rightarrow> True | Some e \<Rightarrow> r' = Inl e"
      by (auto simp: exact_def split: option.splits)
    ultimately show ?thesis
      using Pair Inr fx
      by (auto simp: exact_def bind_eff_def first_raise_append split: option.splits)
  qed
qed

lemma exact_retrieve: "exact svc (retrieve svc q bid k thr)"
  unfolding retrieve_def
  by (intro exact_bind exact_embed exact_search exact_return)

lemma exact_chat_full_book: "exact svc (chat_full_book svc request)"
  unfolding chat_full_book_def
  by (intro exact_bind exact_retrieve) (auto intro: exact_return exact_bind exact_chat)

lemma exact_answer_with_selected_text:
  "exact svc (answer_with_selected_text svc q sel bid flag)"
proof (cases sel)
  case None
  then show ?thesis by (simp add: answer_with_selected_text_def exact_def)
next
  case (Some raw)
  then show ?thesis
    unfolding answer_with_selected_text_def
    by (auto simp: Let_def intro!: exact_bind exact_embed exact_search exact_return)
qed

lemma exact_chat_with_selected_text: "exact svc (chat_with_selected_text svc request)"
  unfolding chat_with_selected_text_def Let_def
  by (intro exact_bind exact_answer_with_selected_text exact_chat exact_return)

lemma exact_retrieve_context: "exact svc (retrieve_context svc q bid k)"
  unfolding retrieve_context_def
  by (intro exact_bind exact_embed exact_search exact_return)

lemma exact_rag_chat_body: "exact svc (rag_chat_body svc request)"
  unfolding rag_chat_body_def Let_def
  by (intro exact_bind exact_retrieve_context)
     (auto intro: exact_return exact_bind exact_chat)

lemma chat_selected_path:
  assumes "md = ''selected_text''" and "selected_text request = Some t" and "t \<noteq> []"
  shows "chat svc request md = finish_chat svc md (chat_with_selected_text svc request)"
  using assms by (auto simp: chat_def finish_chat_def split: prod.splits sum.splits)

lemma chat_full_path:
  assumes "md \<noteq> ''selected_text'' \<or> selected_text request = None \<or> selected_text request = Some []"
  shows "chat svc request md = finish_chat svc md (chat_full_book svc request)"
  using assms by (auto simp: chat_def finish_chat_def split: prod.splits sum.splits)

lemma chat_path_cases:
  obtains t where "md = ''selected_text''" and "selected_text request = Some t" and "t \<noteq> []"
  | "md \<noteq> ''selected_text'' \<or> selected_text request = None \<or> selected_text request = Some []"
  by (cases "selected_text request") auto

lemma finish_chat_raise:
  assumes "exact svc m" and "first_raise svc (fst (finish_chat svc md m)) = Some e"
  shows "snd (finish_chat svc md m) =
        \<lparr>r_answer = FALLBACK_RESPONSE, r_citations = [], r_mode = md,
         r_chunks_retrieved = 0, r_model_used = chat_model svc\<rparr>"
  using assms by (simp add: exact_def finish_chat_def)

lemma retrieve_no_chat_call: "\<not> list_ex is_chat_call (fst (retrieve svc q bid k thr))"
  by (auto simp: retrieve_def eff_defs split: sum.splits)

lemma chat_full_book_empty:
  assumes "snd (retrieve svc (query request) (book_id request) (max_chunks request) None) = Inr []"
  shows "chat_full_book svc request =
           (fst (retrieve svc (query request) (book_id request) (max_chunks request) None),
            Inr \<lparr>pr_answer = FALLBACK_RESPONSE, pr_citations = [], pr_chunks_retrieved = 0\<rparr>)"
  using assms
  by (cases "retrieve svc (query request) (book_id request) (max_chunks request) None")
     (simp add: chat_full_book_def bind_eff_def return_eff_def)

lemma retrieve_empty_index:
  "retrieve empty_index_services ''What is X?'' None 5 None
     = ([EmbedCall ''What is X?'', SearchCall [1] 5 None None], Inr [])"
  by (simp add: retrieve_def eff_defs empty_index_services_def)

lemma retrieve_context_empty_index:
  "retrieve_context empty_index_services ''What is X?'' None 5
     = ([EmbedCall ''What is X?'', SearchCall [1] 5 None None], Inr [])"
  by (simp add: retrieve_context_def eff_defs empty_index_services_def)

subsection \<open>Empty retrieval\<close>

text \<open>
  Claim C1, as amended. In \<open>RAGAgent.chat\<close>, a request that takes the whole-corpus path and
  whose retrieval returns no unit gets the fixed refusal answer, no citation and
  \<open>chunks_retrieved = 0\<close>, and the generative model is not called. The endpoint \<open>rag_chat\<close>
  does call the generative model then, with the general-purpose prompt and the bare
  query, and answers with what the model returns (mode \<open>simple\<close>, no citation, zero units),
  or with its error answer when that call raises.
\<close>

theorem empty_retrieval_refusal:
  "(snd (retrieve svc (query request) (book_id request) (max_chunks request) None) = Inr []
      \<and> (md \<noteq> ''selected_text'' \<or> selected_text request = None \<or> selected_text request = Some [])
    \<longrightarrow> snd (chat svc request md) =
          \<lparr>r_answer = FALLBACK_RESPONSE, r_citations = [], r_mode = md,
           r_chunks_retrieved = 0, r_model_used = chat_model svc\<rparr>
        \<and> \<not> list_ex is_chat_call (fst (chat svc request md)))
   \<and> (snd (retrieve_context svc (query request) (book_id request)
              (if max_chunks request = 0 then 5 else max_chunks request)) = Inr []
    \<longrightarrow> list_ex is_chat_call (fst (rag_chat svc request))
        \<and> snd (rag_chat svc request) =
            (case client_chat svc [\<lparr>role = ''system'', content = SIMPLE_SYSTEM_PROMPT\<rparr>,
                                   \<lparr>role = ''user'', content = query request\<rparr>] of
               Inr answer \<Rightarrow>
                 \<lparr>r_answer = answer, r_citations = [], r_mode = ''simple'',
                  r_chunks_retrieved = 0, r_model_used = chat_model svc\<rparr>
             | Inl e \<Rightarrow>
                 \<lparr>r_answer = ''Sorry, I encountered an error: '' @ str_exn e, r_citations = [],
                  r_mode = ''rag'', r_chunks_retrieved = 0, r_model_used = chat_model svc\<rparr>))"
proof (intro conjI impI)
  assume a: "snd (retrieve svc (query request) (book_id request) (max_chunks request) None) = Inr []
      \<and> (md \<noteq> ''selected_text'' \<or> selected_text request = None \<or> selected_text request = Some [])"
  then have c: "chat svc request md = finish_chat svc md (chat_full_book svc request)"
    by (intro chat_full_path) simp
  from a have f: "chat_full_book svc request =
           (fst (retrieve svc (query request) (book_id request) (max_chunks request) None),
            Inr \<lparr>pr_answer = FALLBACK_RESPONSE, pr_citations = [], pr_chunks_retrieved = 0\<rparr>)"
    by (intro chat_full_book_empty) simp
  show "snd (chat svc request md) =
          \<lparr>r_answer = FALLBACK_RESPONSE, r_citations = [], r_mode = md,
           r_chunks_retrieved = 0, r_model_used = chat_model svc\<rparr>"
    by (simp add: c f finish_chat_def)
  show "\<not> list_ex is_chat_call (fst (chat svc request md))"
    by (simp add: c f finish_chat_def retrieve_no_chat_call)
next
  assume a: "snd (retrieve_context svc (query request) (book_id request)
              (if max_chunks request = 0 then 5 else max_chunks request)) = Inr []"
  obtain l where l: "retrieve_context svc (query request) (book_id request)
              (if max_chunks request = 0 then 5 else max_chunks request) = (l, Inr [])"
    using a by (cases "retrieve_context svc (query request) (book_id request)
              (if max_chunks request = 0 then 5 else max_chunks request)") simp
  show "list_ex is_chat_call (fst (rag_chat svc request))"
    by (auto simp: rag_chat_def rag_chat_body_def l bind_eff_def return_eff_def cohere_chat_def
             split: sum.splits)
  show "snd (rag_chat svc request) =
            (case client_chat svc [\<lparr>role = ''system'', content = SIMPLE_SYSTEM_PROMPT\<rparr>,
                                   \<lparr>role = ''user'', content = query request\<rparr>] of
               Inr answer \<Rightarrow>
                 \<lparr>r_answer = answer, r_citations = [], r_mode = ''simple'',
                  r_chunks_retrieved = 0, r_model_used = chat_model svc\<rparr>
             | Inl e \<Rightarrow>
                 \<lparr>r_answer = ''Sorry, I encountered an error: '' @ str_exn e, r_citations = [],
                  r_mode = ''rag'', r_chunks_retrieved = 0, r_model_used = chat_model svc\<rparr>)"
    by (auto simp: rag_chat_def rag_chat_body_def l bind_eff_def return_eff_def cohere_chat_def
             split: sum.splits)
qed

theorem empty_retrieval_refusal_witness:
  "snd (retrieve empty_index_services (query example_request) (book_id example_request)
          (max_chunks example_request) None) = Inr []
   \<and> snd (chat empty_index_services example_request ''full_book'') =
          \<lparr>r_answer = FALLBACK_RESPONSE, r_citations = [], r_mode = ''full_book'',
           r_chunks_retrieved = 0, r_model_used = ''command-a-03-2025''\<rparr>
   \<and> \<not> list_ex is_chat_call (fst (chat empty_index_services example_request ''full_book''))
   \<and> snd (retrieve_context empty_index_services (query example_request) (book_id example_request)
          (if max_chunks example_request = 0 then 5 else max_chunks example_request)) = Inr []
   \<and> list_ex is_chat_call (fst (rag_chat empty_index_services example_request))
   \<and> snd (rag_chat empty_index_services example_request) =
          \<lparr>r_answer = ''X is a letter.'', r_citations = [], r_mode = ''simple'',
           r_chunks_retrieved = 0, r_model_used = ''command-a-03-2025''\<rparr>"
proof -
  have h1: "snd (retrieve empty_index_services (query example_request) (book_id example_request)
          (max_chunks example_request) None) = Inr []"
    by (simp add: example_request_def retrieve_empty_index)
  have h2: "snd (retrieve_context empty_index_services (query example_request) (book_id example_request)
          (if max_chunks example_request = 0 then 5 else max_chunks example_request)) = Inr []"
    by (simp add: example_request_def retrieve_context_empty_index)
  have m: "chat_model empty_index_services = ''command-a-03-2025''"
    and c: "client_chat empty_index_services = (\<lambda>ms. Inr ''X is a letter.'')"
    by (simp_all add: empty_index_services_def)
  show ?thesis
    using h1 h2 empty_retrieval_refusal[of empty_index_services example_request "''full_book''"]
    by (simp add: m c)
qed

text \<open>
  The claim as it stands fails on \<open>rag_chat\<close>: on an empty index the answer is the
  model's, and the model was called.
\<close>

theorem rag_chat_empty_retrieval_counterexample:
  "snd (retrieve_context empty_index_services (query example_request) (book_id example_request)
          (if max_chunks example_request = 0 then 5 else max_chunks example_request)) = Inr []
   \<and> r_answer (snd (rag_chat empty_index_services example_request)) = ''X is a letter.''
   \<and> r_answer (snd (rag_chat empty_index_services example_request)) \<noteq> FALLBACK_RESPONSE
   \<and> fst (rag_chat empty_index_services example_request) =
       [EmbedCall ''What is X?'', SearchCall [1] 5 None None,
        ChatCall [\<lparr>role = ''system'', content = SIMPLE_SYSTEM_PROMPT\<rparr>,
                  \<lparr>role = ''user'', content = ''What is X?''\<rparr>]]"
  by (simp add: example_request_def retrieve_context_empty_index rag_chat_def rag_chat_body_def
        bind_eff_def return_eff_def cohere_chat_def FALLBACK_RESPONSE_def)
     (simp add: empty_index_services_def)

subsection \<open>Upstream failures\<close>

text \<open>
  Claim C2, as amended. In \<open>RAGAgent.chat\<close>, an exception raised by the embedding call, the
  search call or the generation call is caught and gives the fixed refusal answer, no
  citation and zero units, the same answer as empty retrieval gives there; the exception
  is not raised again. The endpoint \<open>rag_chat\<close> catches the exception as well and does not
  raise it again, but its answer is the text \<open>Sorry, I encountered an error: \<close> followed by
  the exception's message, with no citation and zero units.
\<close>

theorem upstream_failure_handling:
  "(first_raise svc (fst (chat svc request md)) = Some e \<longrightarrow>
      snd (chat svc request md) =
        \<lparr>r_answer = FALLBACK_RESPONSE, r_citations = [], r_mode = md,
         r_chunks_retrieved = 0, r_model_used = chat_model svc\<rparr>)
   \<and> (snd (retrieve svc (query request) (book_id request) (max_chunks request) None) = Inr []
      \<and> (md \<noteq> ''selected_text'' \<or> selected_text request = None \<or> selected_text request = Some [])
    \<longrightarrow> r_answer (snd (chat svc request md)) = FALLBACK_RESPONSE)
   \<and> (first_raise svc (fst (rag_chat svc request)) = Some e \<longrightarrow>
      snd (rag_chat svc request) =
        \<lparr>r_answer = ''Sorry, I encountered an error: '' @ str_exn e, r_citations = [],
         r_mode = ''rag'', r_chunks_retrieved = 0, r_model_used = chat_model svc\<rparr>)"
proof (intro conjI impI)
  assume a: "snd (retrieve svc (query request) (book_id request) (max_chunks request) None) = Inr []
      \<and> (md \<noteq> ''selected_text'' \<or> selected_text request = None \<or> selected_text request = Some [])"
  then have "chat svc request md = finish_chat svc md (chat_full_book svc request)"
    by (intro chat_full_path) simp
  moreover from a have "snd (chat_full_book svc request) =
      Inr \<lparr>pr_answer = FALLBACK_RESPONSE, pr_citations = [], pr_chunks_retrieved = 0\<rparr>"
    by (simp add: chat_full_book_empty)
  ultimately show "r_answer (snd (chat svc request md)) = FALLBACK_RESPONSE"
    by (simp add: finish_chat_def)
next
  assume a: "first_raise svc (fst (chat svc request md)) = Some e"
  show "snd (chat svc request md) =
        \<lparr>r_answer = FALLBACK_RESPONSE, r_citations = [], r_mode = md,
         r_chunks_retrieved = 0, r_model_used = chat_model svc\<rparr>"
  proof (cases rule: chat_path_cases[of md request])
    case (1 t)
    from chat_selected_path[OF 1] a show ?thesis
      by (simp add: finish_chat_raise[OF exact_chat_with_selected_text])
  next
    case 2
    from chat_full_path[OF 2] a show ?thesis
      by (simp add: finish_chat_raise[OF exact_chat_full_book])
  qed
next
  assume a: "first_raise svc (fst (rag_chat svc request)) = Some e"
  have "fst (rag_chat svc request) = fst (rag_chat_body svc request)"
    by (auto simp: rag_chat_def split: prod.splits sum.splits)
  with a exact_rag_chat_body[of svc request]
  have "snd (rag_chat_body svc request) = Inl e"
    by (simp add: exact_def)
  then show "snd (rag_chat svc request) =
        \<lparr>r_answer = ''Sorry, I encountered an error: '' @ str_exn e, r_citations = [],
         r_mode = ''rag'', r_chunks_retrieved = 0, r_model_used = chat_model svc\<rparr>"
    by (cases "rag_chat_body svc request") (simp add: rag_chat_def)
qed

lemma chat_failing_log:
  "fst (chat failing_services example_request ''full_book'') = [EmbedCall ''What is X?'']"
  by (simp add: chat_def chat_full_book_def retrieve_def eff_defs example_request_def
        failing_services_def)

lemma rag_chat_failing_log:
  "fst (rag_chat failing_services example_request) = [EmbedCall ''What is X?'']"
  by (simp add: rag_chat_def rag_chat_body_def retrieve_context_def eff_defs example_request_def
        failing_services_def)

lemma first_raise_failing:
  "first_raise failing_services [EmbedCall ''What is X?''] = Some (ServiceError ''Connection error.'')"
  by (simp add: embed_text_def failing_services_def)

theorem upstream_failure_handling_witness:
  "first_raise failing_services (fst (chat failing_services example_request ''full_book''))
     = Some (ServiceError ''Connection error.'')
   \<and> snd (chat failing_services example_request ''full_book'') =
        \<lparr>r_answer = FALLBACK_RESPONSE, r_citations = [], r_mode = ''full_book'',
         r_chunks_retrieved = 0, r_model_used = ''command-a-03-2025''\<rparr>
   \<and> first_raise failing_services (fst (rag_chat failing_services example_request))
     = Some (ServiceError ''Connection error.'')
   \<and> snd (rag_chat failing_services example_request) =
        \<lparr>r_answer = ''Sorry, I encountered an error: Connection error.'', r_citations = [],
         r_mode = ''rag'', r_chunks_retrieved = 0, r_model_used = ''command-a-03-2025''\<rparr>
   \<and> snd (retrieve empty_index_services (query example_request) (book_id example_request)
          (max_chunks example_request) None) = Inr []
   \<and> selected_text example_request = None
   \<and> r_answer (snd (chat empty_index_services example_request ''full_book'')) = FALLBACK_RESPONSE"
proof -
  have h3: "snd (retrieve empty_index_services (query example_request) (book_id example_request)
          (max_chunks example_request) None) = Inr []"
    by (simp add: example_request_def retrieve_empty_index)
  have h4: "selected_text example_request = None"
    by (simp add: example_request_def)
  have h1: "first_raise failing_services (fst (chat failing_services example_request ''full_book''))
     = Some (ServiceError ''Connection error.'')"
    by (simp only: chat_failing_log first_raise_failing)
  have h2: "first_raise failing_services (fst (rag_chat failing_services example_request))
     = Some (ServiceError ''Connection error.'')"
    by (simp only: rag_chat_failing_log first_raise_failing)
  have m: "chat_model failing_services = ''command-a-03-2025''"
    by (simp add: failing_services_def)
  show ?thesis
    using h1 h2 h3 h4
      upstream_failure_handling[of failing_services example_request "''full_book''"
        "ServiceError ''Connection error.''"]
      upstream_failure_handling[of empty_index_services example_request "''full_book''"]
    by (simp add: m)
qed

text \<open>
  The claim as it stands fails on \<open>rag_chat\<close>: when the embedding call raises, the answer
  is not the refusal string.
\<close>

theorem rag_chat_error_answer_counterexample:
  "call_exn failing_services (EmbedCall (query example_request))
     = Some (ServiceError ''Connection error.'')
   \<and> r_answer (snd (rag_chat failing_services example_request))
     = ''Sorry, I encountered an error: Connection error.''
   \<and> r_answer (snd (rag_chat failing_services example_request)) \<noteq> FALLBACK_RESPONSE"
  by (simp add: rag_chat_def rag_chat_body_def retrieve_context_def eff_defs example_request_def
        FALLBACK_RESPONSE_def)
     (simp add: failing_services_def)

subsection \<open>Selected-text mode without a selection\<close>




subsection \<open>Mode router\<close>

text \<open>
  A validated request has one of the two modes: a request that gives none gets \<open>full_book\<close>.
\<close>

lemma validate_mode:
  assumes "ChatRequest_validate raw = Some request"
  shows "mode request = (case raw_mode raw of None \<Rightarrow> ''full_book'' | Some m \<Rightarrow> m)"
    and "mode request = ''full_book'' \<or> mode request = ''selected_text''"
    and "selected_text request = raw_selected_text raw"
proof -
  define m where "m = (case raw_mode raw of None \<Rightarrow> ''full_book'' | Some v \<Rightarrow> v)"
  define k where "k = (case raw_max_chunks raw of None \<Rightarrow> 5 | Some v \<Rightarrow> v)"
  define fb where "fb = ''full_book''"
  define st where "st = ''selected_text''"
  have v: "ChatRequest_validate raw =
     (if length (raw_query raw) < 1 \<or> length (raw_query raw) > 1000 then None
         else if (case raw_selected_text raw of None \<Rightarrow> False | Some t \<Rightarrow> length t > 5000) then None
         else if m \<noteq> fb \<and> m \<noteq> st then None
         else if k < 1 \<or> k > 20 then None
         else Some \<lparr>query = raw_query raw, selected_text = raw_selected_text raw,
                     book_id = raw_book_id raw, mode = m, max_chunks = k\<rparr>)"
    unfolding ChatRequest_validate_def Let_def m_def k_def fb_def st_def ..
  from assms have r: "request = \<lparr>query = raw_query raw, selected_text = raw_selected_text raw,
                     book_id = raw_book_id raw, mode = m, max_chunks = k\<rparr>"
    and ok: "m = fb \<or> m = st"
    unfolding v by (auto split: if_splits)
  show "mode request = (case raw_mode raw of None \<Rightarrow> ''full_book'' | Some m \<Rightarrow> m)"
    using r by (simp add: m_def)
  show "mode request = ''full_book'' \<or> mode request = ''selected_text''"
    using r ok by (simp add: fb_def st_def)
  show "selected_text request = raw_selected_text raw"
    using r by simp
qed

text \<open>
  Claim C3. \<open>detect_mode\<close> depends on the request's mode field and selected text only, and
  on these two it is the router of the specification, an empty mode field standing for
  no mode: a mode that is given is returned whatever the selected text; without a mode
  the router gives \<open>selected_text\<close> when the selected text is non-empty after trimming and
  \<open>full_book\<close> otherwise, so a selected text of whitespace only gives \<open>full_book\<close>.
\<close>

theorem detect_mode_is_spec_router:
  "detect_mode request
     = spec_mode_router (if mode request = [] then None else Some (mode request))
         (selected_text request)
   \<and> (mode request \<noteq> [] \<longrightarrow> detect_mode request = mode request)
   \<and> (mode request = [] \<longrightarrow> detect_mode request = spec_mode_router None (selected_text request))
   \<and> (mode request = [] \<and> selected_text request = Some t \<and> py_strip t \<noteq> []
        \<longrightarrow> detect_mode request = ''selected_text'')
   \<and> (mode request = [] \<and> selected_text request = Some t \<and> py_strip t = []
        \<longrightarrow> detect_mode request = ''full_book'')
   \<and> (mode request = [] \<and> selected_text request = None \<longrightarrow> detect_mode request = ''full_book'')
   \<and> (mode request = mode request' \<and> selected_text request = selected_text request'
        \<longrightarrow> detect_mode request = detect_mode request')"
proof -
  have e: "py_strip [] = []" by (simp add: py_strip_def)
  have a: "mode request \<noteq> [] \<longrightarrow> detect_mode request = mode request"
    by (simp add: detect_mode_def)
  have b: "mode request = [] \<longrightarrow> detect_mode request = spec_mode_router None (selected_text request)"
    using e by (auto simp: detect_mode_def spec_mode_router_def split: option.splits)
  have c: "detect_mode request
     = spec_mode_router (if mode request = [] then None else Some (mode request))
         (selected_text request)"
  proof (cases "mode request = []")
    case True
    with b show ?thesis by simp
  next
    case False
    with a show ?thesis by (simp add: spec_mode_router_def)
  qed
  have d: "mode request = [] \<and> selected_text request = Some t \<and> py_strip t \<noteq> []
        \<longrightarrow> detect_mode request = ''selected_text''"
    using b by (simp add: spec_mode_router_def)
  have f: "mode request = [] \<and> selected_text request = Some t \<and> py_strip t = []
        \<longrightarrow> detect_mode request = ''full_book''"
    using b by (simp add: spec_mode_router_def)
  have g: "mode request = [] \<and> selected_text request = None \<longrightarrow> detect_mode request = ''full_book''"
    using b by (simp add: spec_mode_router_def)
  have h: "mode request = mode request' \<and> selected_text request = selected_text request'
        \<longrightarrow> detect_mode request = detect_mode request'"
    by (simp add: detect_mode_def)
  from a b c d f g h show ?thesis by blast
qed

theorem detect_mode_is_spec_router_witness:
  "(mode selected_request \<noteq> [] \<and> detect_mode selected_request = ''selected_text'')
   \<and> (mode (example_request\<lparr>selected_text := Some ''x''\<rparr>) \<noteq> []
      \<and> detect_mode (example_request\<lparr>selected_text := Some ''x''\<rparr>) = ''full_book'')
   \<and> (mode (example_request\<lparr>mode := [], selected_text := Some ''   ''\<rparr>) = []
      \<and> py_strip ''   '' = []
      \<and> detect_mode (example_request\<lparr>mode := [], selected_text := Some ''   ''\<rparr>) = ''full_book'')
   \<and> (py_strip ''x'' \<noteq> []
      \<and> detect_mode (example_request\<lparr>mode := [], selected_text := Some ''x''\<rparr>) = ''selected_text'')
   \<and> (selected_text (example_request\<lparr>mode := []\<rparr>) = None
      \<and> detect_mode (example_request\<lparr>mode := []\<rparr>) = ''full_book'')
   \<and> (mode example_request = mode (example_request\<lparr>query := ''Another question''\<rparr>)
      \<and> selected_text example_request
          = selected_text (example_request\<lparr>query := ''Another question''\<rparr>)
      \<and> detect_mode example_request
          = detect_mode (example_request\<lparr>query := ''Another question''\<rparr>))"
proof -
  have s: "py_strip ''   '' = []" "py_strip ''x'' = ''x''"
    by (simp_all add: py_strip_def is_space_def)
  have m: "mode selected_request = ''selected_text''" "mode example_request = ''full_book''"
    "selected_text example_request = None"
    by (simp_all add: selected_request_def example_request_def)
  show ?thesis
    using m
      detect_mode_is_spec_router[of selected_request]
      detect_mode_is_spec_router[of "example_request\<lparr>selected_text := Some ''x''\<rparr>"]
      detect_mode_is_spec_router[of "example_request\<lparr>mode := [], selected_text := Some ''   ''\<rparr>"
        "''   ''"]
      detect_mode_is_spec_router[of "example_request\<lparr>mode := [], selected_text := Some ''x''\<rparr>"
        "''x''"]
      detect_mode_is_spec_router[of "example_request\<lparr>mode := []\<rparr>"]
      detect_mode_is_spec_router[of example_request _
        "example_request\<lparr>query := ''Another question''\<rparr>"]
    by (auto simp: s spec_mode_router_def)
qed

subsection \<open>Trimming\<close>

lemma py_strip_Nil [simp]: "py_strip [] = []"
  by (simp add: py_strip_def)

lemma py_strip_decomp:
  "\<exists>a b. s = a @ py_strip s @ b \<and> list_all is_space a \<and> list_all is_space b"
proof -
  define d where "d = dropWhile is_space s"
  have "rev d = takeWhile is_space (rev d) @ dropWhile is_space (rev d)"
    by simp
  then have "d = rev (dropWhile is_space (rev d)) @ rev (takeWhile is_space (rev d))"
    by (metis rev_append rev_rev_ident)
  then have "s = takeWhile is_space s @ py_strip s @ rev (takeWhile is_space (rev d))"
    unfolding py_strip_def d_def[symmetric]
    by (metis d_def takeWhile_dropWhile_id)
  moreover have "list_all is_space (takeWhile is_space s)"
    by (simp add: list_all_iff) (meson set_takeWhileD)
  moreover have "list_all is_space (rev (takeWhile is_space (rev d)))"
    by (simp add: list_all_iff) (meson set_takeWhileD)
  ultimately show ?thesis by blast
qed

lemma py_strip_ends:
  assumes "py_strip s \<noteq> []"
  shows "\<not> is_space (hd (py_strip s))" and "\<not> is_space (last (py_strip s))"
proof -
  define d where "d = dropWhile is_space s"
  define e where "e = dropWhile is_space (rev d)"
  have ps: "py_strip s = rev e" by (simp add: py_strip_def d_def e_def)
  with assms have e: "e \<noteq> []" by simp
  then have d: "d \<noteq> []" by (auto simp: e_def)
  have "\<not> is_space (hd e)" using e unfolding e_def by (rule hd_dropWhile)
  then show "\<not> is_space (last (py_strip s))" using e by (simp add: ps last_rev)
  have "last e = last (rev d)"
    using e unfolding e_def by (metis append_Nil2 last_appendR takeWhile_dropWhile_id)
  then have "hd (rev e) = hd d" using e d by (simp add: hd_rev last_rev)
  moreover have "\<not> is_space (hd d)" using d unfolding d_def by (rule hd_dropWhile)
  ultimately show "\<not> is_space (hd (py_strip s))" by (simp add: ps)
qed

lemma py_strip_clean:
  assumes "s \<noteq> []" and "\<not> is_space (hd s)" and "\<not> is_space (last s)"
  shows "py_strip s = s"
proof -
  from assms have "dropWhile is_space s = s" by (cases s) auto
  moreover from assms have "dropWhile is_space (rev s) = rev s"
    by (cases "rev s") (auto simp: last_rev[symmetric] hd_rev)
  ultimately show ?thesis by (simp add: py_strip_def)
qed


subsection \<open>The pinned-passage path\<close>

lemma answer_with_selected_text_Inr:
  assumes "answer_with_selected_text svc q sel bid True = (l, Inr res)"
  shows "\<exists>raw emb results. sel = Some raw
           \<and> client_embed svc (take 5000 (py_strip raw)) = Inr emb
           \<and> snd (qdrant_search svc emb 3 None bid) = Inr results
           \<and> l = [EmbedCall (take 5000 (py_strip raw)), SearchCall emb 3 None bid]
           \<and> res = \<lparr>forced_context = ''[Selected Text]'' @ [nl] @ take 5000 (py_strip raw) @ [nl],
                     st_selected_text = take 5000 (py_strip raw),
                     additional_chunks = map (\<lambda>r.
                        \<lparr>ac_chunk_id = p_chunk_id (sp_payload r),
                         ac_text = p_text (sp_payload r),
                         ac_source = p_source_file (sp_payload r),
                         ac_score = sp_score r\<rparr>) results,
                     st_mode = ''selected_text''\<rparr>"
  using assms
  by (cases sel)
     (auto simp: answer_with_selected_text_def Let_def bind_eff_Inr return_eff_eq
                 embed_text_def qdrant_search_def split: if_splits)

text \<open>The citations of the pinned-passage path, from the selection and the search hits.\<close>

lemma chat_with_selected_text_Inr:
  assumes "chat_with_selected_text svc request = (l, Inr res)"
  shows "\<exists>sel emb results. selected_text request = Some sel
           \<and> client_embed svc (take 5000 (py_strip sel)) = Inr emb
           \<and> snd (qdrant_search svc emb 3 None (book_id request)) = Inr results
           \<and> pr_citations res =
               \<lparr>cit_chunk_id = ''selected'',
                cit_text = (if length sel > 200 then take 200 sel @ ''...'' else sel),
                cit_source = ''User Selection'', cit_chapter = None, cit_section = None,
                cit_score = 1\<rparr>
               # map (\<lambda>r.
                   \<lparr>cit_chunk_id = p_chunk_id (sp_payload r),
                    cit_text = (if length (p_text (sp_payload r)) > 200
                                then take 200 (p_text (sp_payload r)) @ ''...''
                                else p_text (sp_payload r)),
                    cit_source = p_source_file (sp_payload r),
                    cit_chapter = None, cit_section = None,
                    cit_score = sp_score r\<rparr>) results
           \<and> pr_chunks_retrieved res = int (length results) + 1"
proof -
  from assms obtain l1 hres l2 where
    h: "answer_with_selected_text svc (query request) (selected_text request) (book_id request) True
          = (l1, Inr hres)"
    and rest: "(let sel = (case selected_text request of None \<Rightarrow> [] | Some t \<Rightarrow> t);
            context = forced_context hres;
            context = (if additional_chunks hres \<noteq> []
                       then context @ [nl, nl] @ ''[Additional Relevant Content]'' @ [nl]
                            @ py_join [nl, nl]
                                (map (\<lambda>ch. ''['' @ ac_source ch @ ''] '' @ ac_text ch)
                                   (additional_chunks hres))
                       else context)
        in bind_eff (cohere_chat svc
                      [\<lparr>role = ''system'', content = SYSTEM_PROMPT\<rparr>,
                       \<lparr>role = ''user'', content = user_message context (query request)\<rparr>])
             (\<lambda>answer.
                return_eff
                  \<lparr>pr_answer = answer,
                   pr_citations =
                     \<lparr>cit_chunk_id = ''selected'',
                      cit_text = (if length sel > 200 then take 200 sel @ ''...'' else sel),
                      cit_source = ''User Selection'',
                      cit_chapter = None,
                      cit_section = None,
                      cit_score = 1\<rparr>
                     # map (\<lambda>ch.
                         \<lparr>cit_chunk_id = ac_chunk_id ch,
                          cit_text = (if length (ac_text ch) > 200
                                      then take 200 (ac_text ch) @ ''...'' else ac_text ch),
                          cit_source = ac_source ch,
                          cit_chapter = None,
                          cit_section = None,
                          cit_score = ac_score ch\<rparr>) (additional_chunks hres),
                   pr_chunks_retrieved = int (length (additional_chunks hres)) + 1\<rparr>)) = (l2, Inr res)"
    unfolding chat_with_selected_text_def bind_eff_Inr by blast
  from answer_with_selected_text_Inr[OF h] obtain raw emb results where
    a: "selected_text request = Some raw"
       "client_embed svc (take 5000 (py_strip raw)) = Inr emb"
       "snd (qdrant_search svc emb 3 None (book_id request)) = Inr results"
       "additional_chunks hres = map (\<lambda>r.
                        \<lparr>ac_chunk_id = p_chunk_id (sp_payload r),
                         ac_text = p_text (sp_payload r),
                         ac_source = p_source_file (sp_payload r),
                         ac_score = sp_score r\<rparr>) results"
    by auto
  from rest have "pr_citations res =
      \<lparr>cit_chunk_id = ''selected'',
                      cit_text = (if length raw > 200 then take 200 raw @ ''...'' else raw),
                      cit_source = ''User Selection'',
                      cit_chapter = None,
                      cit_section = None,
                      cit_score = 1\<rparr>
                     # map (\<lambda>ch.
                         \<lparr>cit_chunk_id = ac_chunk_id ch,
                          cit_text = (if length (ac_text ch) > 200
                                      then take 200 (ac_text ch) @ ''...'' else ac_text ch),
                          cit_source = ac_source ch,
                          cit_chapter = None,
                          cit_section = None,
                          cit_score = ac_score ch\<rparr>) (additional_chunks hres)
      \<and> pr_chunks_retrieved res = int (length (additional_chunks hres)) + 1"
    by (auto simp: Let_def bind_eff_Inr return_eff_eq a(1))
  then show ?thesis
    using a by (auto simp: o_def)
qed

lemma chat_with_selected_text_ok:
  "chat_with_selected_text ok_services selected_request =
     ([EmbedCall ''X is a letter.'', SearchCall [1] 3 None None,
       ChatCall [\<lparr>role = ''system'', content = SYSTEM_PROMPT\<rparr>,
                 \<lparr>role = ''user'',
                  content = user_message
                    (''[Selected Text]'' @ [nl] @ ''X is a letter.'' @ [nl] @ [nl, nl]
                      @ ''[Additional Relevant Content]'' @ [nl]
                      @ ''[ch1.md] '' @ replicate 201 CHR ''a'')
                    ''What is X?''\<rparr>]],
      Inr \<lparr>pr_answer = ''An answer.'',
           pr_citations =
             [\<lparr>cit_chunk_id = ''selected'', cit_text = '' X is a letter. '',
               cit_source = ''User Selection'', cit_chapter = None, cit_section = None,
               cit_score = 1\<rparr>,
              \<lparr>cit_chunk_id = ''book-0'', cit_text = replicate 200 CHR ''a'' @ ''...'',
               cit_source = ''ch1.md'', cit_chapter = None, cit_section = None,
               cit_score = 1 / 2\<rparr>],
           pr_chunks_retrieved = 2\<rparr>)"
proof -
  have s: "py_strip '' X is a letter. '' = ''X is a letter.''"
    by (simp add: py_strip_def is_space_def)
  have a: "answer_with_selected_text ok_services ''What is X?'' (Some '' X is a letter. '') None True
     = ([EmbedCall ''X is a letter.'', SearchCall [1] 3 None None],
        Inr \<lparr>forced_context = ''[Selected Text]'' @ [nl] @ ''X is a letter.'' @ [nl],
             st_selected_text = ''X is a letter.'',
             additional_chunks = [\<lparr>ac_chunk_id = ''book-0'', ac_text = replicate 201 CHR ''a'',
                                   ac_source = ''ch1.md'', ac_score = 1 / 2\<rparr>],
             st_mode = ''selected_text''\<rparr>)"
    by (simp add: answer_with_selected_text_def Let_def s eff_defs ok_services_def example_point_def)
  show ?thesis
    by (simp add: chat_with_selected_text_def Let_def selected_request_def a)
       (simp add: bind_eff_def return_eff_def cohere_chat_def ok_services_def)
qed

subsection \<open>Citation snippets\<close>

text \<open>
  Claim C6. At every place where citations are made (\<open>RAGAgent._extract_citations\<close>,
  \<open>extract_citations\<close> of the endpoint, and the pinned-passage path, for the selection and
  for each additional unit), the snippet of a text longer than 200 characters is its first
  200 characters followed by the ellipsis marker \<open>...\<close>, 203 characters in all, and the
  snippet of a text of at most 200 characters is the text itself. Citations are one-to-one
  with the units, in order.
\<close>

theorem citation_snippet_truncation:
  "map cit_text (RAGAgent_extract_citations chunks) = map (\<lambda>c. spec_snippet (rc_text c)) chunks
   \<and> map cit_text (extract_citations chunks) = map (\<lambda>c. spec_snippet (rc_text c)) chunks
   \<and> (snd (chat_with_selected_text svc request) = Inr res \<longrightarrow>
        (\<exists>sel emb results.
           selected_text request = Some sel
           \<and> client_embed svc (take 5000 (py_strip sel)) = Inr emb
           \<and> snd (qdrant_search svc emb 3 None (book_id request)) = Inr results
           \<and> map cit_text (pr_citations res)
               = spec_snippet sel # map (\<lambda>r. spec_snippet (p_text (sp_payload r))) results))
   \<and> (length t > 200 \<longrightarrow> spec_snippet t = take 200 t @ ''...'' \<and> length (spec_snippet t) = 203)
   \<and> (length t \<le> 200 \<longrightarrow> spec_snippet t = t)"
proof (intro conjI impI)
  show "map cit_text (RAGAgent_extract_citations chunks) = map (\<lambda>c. spec_snippet (rc_text c)) chunks"
    by (simp add: RAGAgent_extract_citations_def spec_snippet_def o_def)
  show "map cit_text (extract_citations chunks) = map (\<lambda>c. spec_snippet (rc_text c)) chunks"
    by (simp add: extract_citations_def spec_snippet_def o_def)
  show "length t > 200 \<Longrightarrow> spec_snippet t = take 200 t @ ''...''"
    by (simp add: spec_snippet_def)
  show "length t > 200 \<Longrightarrow> length (spec_snippet t) = 203"
    by (simp add: spec_snippet_def)
  show "length t \<le> 200 \<Longrightarrow> spec_snippet t = t"
    by (simp add: spec_snippet_def)
  assume "snd (chat_with_selected_text svc request) = Inr res"
  then have "chat_with_selected_text svc request = (fst (chat_with_selected_text svc request), Inr res)"
    by (cases "chat_with_selected_text svc request") simp
  from chat_with_selected_text_Inr[OF this] obtain sel emb results where
    s: "selected_text request = Some sel"
       "client_embed svc (take 5000 (py_strip sel)) = Inr emb"
       "snd (qdrant_search svc emb 3 None (book_id request)) = Inr results"
    and c: "pr_citations res =
               \<lparr>cit_chunk_id = ''selected'',
                cit_text = (if length sel > 200 then take 200 sel @ ''...'' else sel),
                cit_source = ''User Selection'', cit_chapter = None, cit_section = None,
                cit_score = 1\<rparr>
               # map (\<lambda>r.
                   \<lparr>cit_chunk_id = p_chunk_id (sp_payload r),
                    cit_text = (if length (p_text (sp_payload r)) > 200
                                then take 200 (p_text (sp_payload r)) @ ''...''
                                else p_text (sp_payload r)),
                    cit_source = p_source_file (sp_payload r),
                    cit_chapter = None, cit_section = None,
                    cit_score = sp_score r\<rparr>) results"
    by blast
  have "map cit_text (pr_citations res)
               = spec_snippet sel # map (\<lambda>r. spec_snippet (p_text (sp_payload r))) results"
    unfolding c by (simp add: spec_snippet_def o_def)
  with s show "\<exists>sel emb results.
           selected_text request = Some sel
           \<and> client_embed svc (take 5000 (py_strip sel)) = Inr emb
           \<and> snd (qdrant_search svc emb 3 None (book_id request)) = Inr results
           \<and> map cit_text (pr_citations res)
               = spec_snippet sel # map (\<lambda>r. spec_snippet (p_text (sp_payload r))) results"
    by (intro exI[of _ sel] exI[of _ emb] exI[of _ results] conjI)
qed

theorem citation_snippet_truncation_witness:
  "snd (chat_with_selected_text ok_services selected_request) =
      Inr \<lparr>pr_answer = ''An answer.'',
           pr_citations =
             [\<lparr>cit_chunk_id = ''selected'', cit_text = '' X is a letter. '',
               cit_source = ''User Selection'', cit_chapter = None, cit_section = None,
               cit_score = 1\<rparr>,
              \<lparr>cit_chunk_id = ''book-0'', cit_text = replicate 200 CHR ''a'' @ ''...'',
               cit_source = ''ch1.md'', cit_chapter = None, cit_section = None,
               cit_score = 1 / 2\<rparr>],
           pr_chunks_retrieved = 2\<rparr>
   \<and> length (replicate 201 CHR ''a'') > 200
   \<and> spec_snippet (replicate 201 CHR ''a'') = replicate 200 CHR ''a'' @ ''...''
   \<and> length (spec_snippet (replicate 201 CHR ''a'')) = 203
   \<and> length '' X is a letter. '' \<le> 200
   \<and> spec_snippet '' X is a letter. '' = '' X is a letter. ''"
proof -
  have h: "snd (chat_with_selected_text ok_services selected_request) =
      Inr \<lparr>pr_answer = ''An answer.'',
           pr_citations =
             [\<lparr>cit_chunk_id = ''selected'', cit_text = '' X is a letter. '',
               cit_source = ''User Selection'', cit_chapter = None, cit_section = None,
               cit_score = 1\<rparr>,
              \<lparr>cit_chunk_id = ''book-0'', cit_text = replicate 200 CHR ''a'' @ ''...'',
               cit_source = ''ch1.md'', cit_chapter = None, cit_section = None,
               cit_score = 1 / 2\<rparr>],
           pr_chunks_retrieved = 2\<rparr>"
    by (simp only: chat_with_selected_text_ok snd_conv)
  have l: "length (replicate 201 CHR ''a'') > 200" "length '' X is a letter. '' \<le> 200"
    by simp_all
  show ?thesis
    using h l
      citation_snippet_truncation[of "[]" ok_services selected_request
        "\<lparr>pr_answer = ''An answer.'',
           pr_citations =
             [\<lparr>cit_chunk_id = ''selected'', cit_text = '' X is a letter. '',
               cit_source = ''User Selection'', cit_chapter = None, cit_section = None,
               cit_score = 1\<rparr>,
              \<lparr>cit_chunk_id = ''book-0'', cit_text = replicate 200 CHR ''a'' @ ''...'',
               cit_source = ''ch1.md'', cit_chapter = None, cit_section = None,
               cit_score = 1 / 2\<rparr>],
           pr_chunks_retrieved = 2\<rparr>" "replicate 201 CHR ''a''"]
      citation_snippet_truncation[of "[]" ok_services selected_request
        "\<lparr>pr_answer = ''An answer.'',
           pr_citations =
             [\<lparr>cit_chunk_id = ''selected'', cit_text = '' X is a letter. '',
               cit_source = ''User Selection'', cit_chapter = None, cit_section = None,
               cit_score = 1\<rparr>,
              \<lparr>cit_chunk_id = ''book-0'', cit_text = replicate 200 CHR ''a'' @ ''...'',
               cit_source = ''ch1.md'', cit_chapter = None, cit_section = None,
               cit_score = 1 / 2\<rparr>],
           pr_chunks_retrieved = 2\<rparr>" "'' X is a letter. ''"]
    by simp
qed

subsection \<open>Pinned-passage citations\<close>

lemma tight_return: "tight svc (return_eff x)"
  by (simp add: tight_def return_eff_def)

lemma tight_embed: "tight svc (embed_text svc t)"
  by (auto simp: tight_def embed_text_def split: sum.splits)

lemma tight_search: "tight svc (qdrant_search svc v k thr bid)"
  by (auto simp: tight_def qdrant_search_def split: sum.splits)

lemma tight_chat: "tight svc (cohere_chat svc ms)"
  by (auto simp: tight_def cohere_chat_def split: sum.splits)

lemma tight_bind:
  assumes "tight svc m" and "\<And>x. tight svc (f x)"
  shows "tight svc (bind_eff m f)"
proof (cases m)
  case (Pair l r)
  show ?thesis
  proof (cases r)
    case (Inl e)
    with Pair assms(1) show ?thesis
      by (simp add: tight_def bind_eff_def)
  next
    case (Inr x)
    obtain l' r' where fx: "f x = (l', r')" by (cases "f x")
    from assms(1) Pair Inr have "first_raise svc l = None"
      by (simp add: tight_def)
    moreover from assms(2)[of x] fx
    have "first_raise svc l' = (case r' of Inl e \<Rightarrow> Some e | Inr y \<Rightarrow> None)"
      by (simp add: tight_def)
    ultimately show ?thesis
      using Pair Inr fx by (simp add: tight_def bind_eff_def first_raise_append)
  qed
qed

lemma tight_answer_with_selected_text:
  "tight svc (answer_with_selected_text svc q (Some raw) bid flag)"
  unfolding answer_with_selected_text_def
  by (auto simp: Let_def intro!: tight_bind tight_embed tight_search tight_return)

lemma tight_chat_with_selected_text:
  assumes "selected_text request = Some t"
  shows "tight svc (chat_with_selected_text svc request)"
  unfolding chat_with_selected_text_def Let_def assms
  by (intro tight_bind tight_answer_with_selected_text tight_chat tight_return)

lemma chat_with_selected_text_failing:
  "chat_with_selected_text failing_services selected_request
     = ([EmbedCall ''X is a letter.''], Inl (ServiceError ''Connection error.''))"
proof -
  have s: "py_strip '' X is a letter. '' = ''X is a letter.''"
    by (simp add: py_strip_def is_space_def)
  show ?thesis
    by (simp add: chat_with_selected_text_def answer_with_selected_text_def Let_def
          selected_request_def s bind_eff_def embed_text_def failing_services_def)
qed

text \<open>
  Claim C8, as amended. In pinned-passage mode, when none of the service calls of the
  request raises, the citation list of the result is the synthetic citation of the user's
  selection, with the identifier \<open>selected\<close> and the score 1, followed by one citation for
  each unit that the secondary search returned, in the order of the search. When a call
  raises, the result is the refusal answer and its citation list is empty.
\<close>

theorem pinned_mode_citations:
  assumes "md = ''selected_text''" and "selected_text request = Some t" and "t \<noteq> []"
  shows "(first_raise svc (fst (chat svc request md)) = None \<longrightarrow>
            (\<exists>emb results.
               client_embed svc (take 5000 (py_strip t)) = Inr emb
               \<and> snd (qdrant_search svc emb 3 None (book_id request)) = Inr results
               \<and> r_citations (snd (chat svc request md)) =
                   \<lparr>cit_chunk_id = ''selected'',
                    cit_text = (if length t > 200 then take 200 t @ ''...'' else t),
                    cit_source = ''User Selection'', cit_chapter = None, cit_section = None,
                    cit_score = 1\<rparr>
                   # map (\<lambda>r.
                       \<lparr>cit_chunk_id = p_chunk_id (sp_payload r),
                        cit_text = (if length (p_text (sp_payload r)) > 200
                                    then take 200 (p_text (sp_payload r)) @ ''...''
                                    else p_text (sp_payload r)),
                        cit_source = p_source_file (sp_payload r),
                        cit_chapter = None, cit_section = None,
                        cit_score = sp_score r\<rparr>) results
               \<and> r_chunks_retrieved (snd (chat svc request md)) = int (length results) + 1))
         \<and> (first_raise svc (fst (chat svc request md)) = Some e \<longrightarrow>
              r_citations (snd (chat svc request md)) = []
              \<and> r_answer (snd (chat svc request md)) = FALLBACK_RESPONSE)"
proof (rule conjI; rule impI)
  have c: "chat svc request md = finish_chat svc md (chat_with_selected_text svc request)"
    using assms by (rule chat_selected_path)
  have tg: "tight svc (chat_with_selected_text svc request)"
    using assms(2) by (rule tight_chat_with_selected_text)
  {
    assume "first_raise svc (fst (chat svc request md)) = Some e"
    then have "snd (chat svc request md) =
        \<lparr>r_answer = FALLBACK_RESPONSE, r_citations = [], r_mode = md,
         r_chunks_retrieved = 0, r_model_used = chat_model svc\<rparr>"
      unfolding c by (rule finish_chat_raise[OF exact_chat_with_selected_text])
    then show "r_citations (snd (chat svc request md)) = []
              \<and> r_answer (snd (chat svc request md)) = FALLBACK_RESPONSE"
      by simp
  }
  assume "first_raise svc (fst (chat svc request md)) = None"
  then have nr: "first_raise svc (fst (chat_with_selected_text svc request)) = None"
    by (simp add: c finish_chat_def)
  obtain l r where lr: "chat_with_selected_text svc request = (l, r)"
    by (cases "chat_with_selected_text svc request")
  from tg nr lr obtain res where r: "r = Inr res"
    by (cases r) (simp_all add: tight_def)
  from chat_with_selected_text_Inr[OF lr[unfolded r]] assms(2) obtain emb results where
    e: "client_embed svc (take 5000 (py_strip t)) = Inr emb"
       "snd (qdrant_search svc emb 3 None (book_id request)) = Inr results"
    and ci: "pr_citations res =
               \<lparr>cit_chunk_id = ''selected'',
                cit_text = (if length t > 200 then take 200 t @ ''...'' else t),
                cit_source = ''User Selection'', cit_chapter = None, cit_section = None,
                cit_score = 1\<rparr>
               # map (\<lambda>r.
                   \<lparr>cit_chunk_id = p_chunk_id (sp_payload r),
                    cit_text = (if length (p_text (sp_payload r)) > 200
                                then take 200 (p_text (sp_payload r)) @ ''...''
                                else p_text (sp_payload r)),
                    cit_source = p_source_file (sp_payload r),
                    cit_chapter = None, cit_section = None,
                    cit_score = sp_score r\<rparr>) results"
    and n: "pr_chunks_retrieved res = int (length results) + 1"
    by auto
  have "r_citations (snd (chat svc request md)) = pr_citations res"
    and "r_chunks_retrieved (snd (chat svc request md)) = pr_chunks_retrieved res"
    by (simp_all add: c lr r finish_chat_def)
  with e ci n show "\<exists>emb results.
               client_embed svc (take 5000 (py_strip t)) = Inr emb
               \<and> snd (qdrant_search svc emb 3 None (book_id request)) = Inr results
               \<and> r_citations (snd (chat svc request md)) =
                   \<lparr>cit_chunk_id = ''selected'',
                    cit_text = (if length t > 200 then take 200 t @ ''...'' else t),
                    cit_source = ''User Selection'', cit_chapter = None, cit_section = None,
                    cit_score = 1\<rparr>
                   # map (\<lambda>r.
                       \<lparr>cit_chunk_id = p_chunk_id (sp_payload r),
                        cit_text = (if length (p_text (sp_payload r)) > 200
                                    then take 200 (p_text (sp_payload r)) @ ''...''
                                    else p_text (sp_payload r)),
                        cit_source = p_source_file (sp_payload r),
                        cit_chapter = None, cit_section = None,
                        cit_score = sp_score r\<rparr>) results
               \<and> r_chunks_retrieved (snd (chat svc request md)) = int (length results) + 1"
    by (intro exI[of _ emb] exI[of _ results]) simp
qed

theorem pinned_mode_citations_witness:
  "selected_text selected_request = Some '' X is a letter. ''
   \<and> first_raise ok_services (fst (chat ok_services selected_request ''selected_text'')) = None
   \<and> r_citations (snd (chat ok_services selected_request ''selected_text'')) =
             [\<lparr>cit_chunk_id = ''selected'', cit_text = '' X is a letter. '',
               cit_source = ''User Selection'', cit_chapter = None, cit_section = None,
               cit_score = 1\<rparr>,
              \<lparr>cit_chunk_id = ''book-0'', cit_text = replicate 200 CHR ''a'' @ ''...'',
               cit_source = ''ch1.md'', cit_chapter = None, cit_section = None,
               cit_score = 1 / 2\<rparr>]
   \<and> first_raise failing_services (fst (chat failing_services selected_request ''selected_text''))
       = Some (ServiceError ''Connection error.'')
   \<and> r_citations (snd (chat failing_services selected_request ''selected_text'')) = []
   \<and> r_answer (snd (chat failing_services selected_request ''selected_text'')) = FALLBACK_RESPONSE"
proof -
  have s: "selected_text selected_request = Some '' X is a letter. ''"
    by (simp add: selected_request_def)
  have ne: "'' X is a letter. '' \<noteq> []" by simp
  have c1: "chat ok_services selected_request ''selected_text''
              = finish_chat ok_services ''selected_text''
                  (chat_with_selected_text ok_services selected_request)"
    using refl s ne by (rule chat_selected_path)
  have c2: "chat failing_services selected_request ''selected_text''
              = finish_chat failing_services ''selected_text''
                  (chat_with_selected_text failing_services selected_request)"
    using refl s ne by (rule chat_selected_path)
  have h1: "first_raise ok_services (fst (chat ok_services selected_request ''selected_text'')) = None"
    unfolding c1 chat_with_selected_text_ok finish_chat_def
    by (simp add: embed_text_def qdrant_search_def cohere_chat_def ok_services_def)
  have h2: "first_raise failing_services
              (fst (chat failing_services selected_request ''selected_text''))
       = Some (ServiceError ''Connection error.'')"
    unfolding c2 chat_with_selected_text_failing finish_chat_def
    by (simp add: embed_text_def failing_services_def)
  have r1: "r_citations (snd (chat ok_services selected_request ''selected_text'')) =
             [\<lparr>cit_chunk_id = ''selected'', cit_text = '' X is a letter. '',
               cit_source = ''User Selection'', cit_chapter = None, cit_section = None,
               cit_score = 1\<rparr>,
              \<lparr>cit_chunk_id = ''book-0'', cit_text = replicate 200 CHR ''a'' @ ''...'',
               cit_source = ''ch1.md'', cit_chapter = None, cit_section = None,
               cit_score = 1 / 2\<rparr>]"
    unfolding c1 chat_with_selected_text_ok finish_chat_def by simp
  show ?thesis
    using s h1 h2 r1
      pinned_mode_citations[OF refl s ne, of ok_services]
      pinned_mode_citations[OF refl s ne, of failing_services "ServiceError ''Connection error.''"]
    by simp
qed

text \<open>
  The claim as it stands fails: in pinned-passage mode, when the embedding call raises,
  the citation list of the result is empty and so does not start with the citation of the
  selection.
\<close>

theorem pinned_mode_failure_counterexample:
  "selected_text selected_request = Some '' X is a letter. ''
   \<and> call_exn failing_services (EmbedCall ''X is a letter.'')
       = Some (ServiceError ''Connection error.'')
   \<and> fst (chat failing_services selected_request ''selected_text'')
       = [EmbedCall ''X is a letter.'']
   \<and> r_mode (snd (chat failing_services selected_request ''selected_text'')) = ''selected_text''
   \<and> r_citations (snd (chat failing_services selected_request ''selected_text'')) = []"
proof -
  have s: "selected_text selected_request = Some '' X is a letter. ''"
    by (simp add: selected_request_def)
  have ne: "'' X is a letter. '' \<noteq> []" by simp
  have c: "chat failing_services selected_request ''selected_text''
              = finish_chat failing_services ''selected_text''
                  (chat_with_selected_text failing_services selected_request)"
    using refl s ne by (rule chat_selected_path)
  have e: "call_exn failing_services (EmbedCall ''X is a letter.'')
       = Some (ServiceError ''Connection error.'')"
    by (simp add: embed_text_def failing_services_def)
  show ?thesis
    unfolding c chat_with_selected_text_failing finish_chat_def
    using s e by simp
qed

subsection \<open>Selected-passage handler\<close>

text \<open>
  Claim C9. \<open>answer_with_selected_text\<close> trims the selected text of surrounding whitespace
  and keeps its first 5000 characters; a longer text is cut, not rejected. The forced
  context of every result is the header line, this text and a newline. Without
  \<open>retrieve_additional\<close> the handler calls no service and always returns. With it, the
  first call embeds this text, not the query, and when the embedding returns, the search
  is called on that embedding with limit 3 and no score threshold; the additional units
  are the hits of that search, in order.
\<close>

theorem selected_passage_handler:
  "answer_with_selected_text svc q (Some raw) bid False =
      ([], Inr \<lparr>forced_context = ''[Selected Text]'' @ [nl] @ take 5000 (py_strip raw) @ [nl],
                st_selected_text = take 5000 (py_strip raw),
                additional_chunks = [],
                st_mode = ''selected_text''\<rparr>)
   \<and> length (take 5000 (py_strip raw)) \<le> 5000
   \<and> (\<exists>a b. raw = a @ py_strip raw @ b \<and> list_all is_space a \<and> list_all is_space b)
   \<and> (py_strip raw = [] \<or> \<not> (is_space (hd (py_strip raw)) \<or> is_space (last (py_strip raw))))
   \<and> (snd (answer_with_selected_text svc q (Some raw) bid flag) = Inr res \<longrightarrow>
        forced_context res = ''[Selected Text]'' @ [nl] @ take 5000 (py_strip raw) @ [nl]
        \<and> st_selected_text res = take 5000 (py_strip raw))
   \<and> take 1 (fst (answer_with_selected_text svc q (Some raw) bid True))
        = [EmbedCall (take 5000 (py_strip raw))]
   \<and> (client_embed svc (take 5000 (py_strip raw)) = Inr emb \<longrightarrow>
        fst (answer_with_selected_text svc q (Some raw) bid True)
          = [EmbedCall (take 5000 (py_strip raw)), SearchCall emb 3 None bid])
   \<and> (client_embed svc (take 5000 (py_strip raw)) = Inr emb
        \<and> snd (qdrant_search svc emb 3 None bid) = Inr results \<longrightarrow>
        snd (answer_with_selected_text svc q (Some raw) bid True) =
          Inr \<lparr>forced_context = ''[Selected Text]'' @ [nl] @ take 5000 (py_strip raw) @ [nl],
               st_selected_text = take 5000 (py_strip raw),
               additional_chunks = map (\<lambda>r.
                  \<lparr>ac_chunk_id = p_chunk_id (sp_payload r),
                   ac_text = p_text (sp_payload r),
                   ac_source = p_source_file (sp_payload r),
                   ac_score = sp_score r\<rparr>) results,
               st_mode = ''selected_text''\<rparr>)"
proof (intro conjI impI)
  show "answer_with_selected_text svc q (Some raw) bid False =
      ([], Inr \<lparr>forced_context = ''[Selected Text]'' @ [nl] @ take 5000 (py_strip raw) @ [nl],
                st_selected_text = take 5000 (py_strip raw),
                additional_chunks = [],
                st_mode = ''selected_text''\<rparr>)"
    by (simp add: answer_with_selected_text_def Let_def bind_eff_def return_eff_def)
  show "length (take 5000 (py_strip raw)) \<le> 5000"
    by simp
  show "\<exists>a b. raw = a @ py_strip raw @ b \<and> list_all is_space a \<and> list_all is_space b"
    by (rule py_strip_decomp)
  show "py_strip raw = [] \<or> \<not> (is_space (hd (py_strip raw)) \<or> is_space (last (py_strip raw)))"
    using py_strip_ends[of raw] by blast
  show "take 1 (fst (answer_with_selected_text svc q (Some raw) bid True))
        = [EmbedCall (take 5000 (py_strip raw))]"
    by (auto simp: answer_with_selected_text_def Let_def eff_defs split: sum.splits prod.splits)
next
  assume "snd (answer_with_selected_text svc q (Some raw) bid flag) = Inr res"
  then have r: "res = \<lparr>forced_context = ''[Selected Text]'' @ [nl] @ take 5000 (py_strip raw) @ [nl],
                st_selected_text = take 5000 (py_strip raw),
                additional_chunks = additional_chunks res,
                st_mode = ''selected_text''\<rparr>"
    by (cases flag)
       (auto simp: answer_with_selected_text_def Let_def eff_defs split: sum.splits prod.splits if_splits)
  show "forced_context res = ''[Selected Text]'' @ [nl] @ take 5000 (py_strip raw) @ [nl]"
    by (subst r) simp
  show "st_selected_text res = take 5000 (py_strip raw)"
    by (subst r) simp
next
  assume "client_embed svc (take 5000 (py_strip raw)) = Inr emb"
  then show "fst (answer_with_selected_text svc q (Some raw) bid True)
          = [EmbedCall (take 5000 (py_strip raw)), SearchCall emb 3 None bid]"
    by (auto simp: answer_with_selected_text_def Let_def eff_defs split: sum.splits prod.splits)
next
  assume "client_embed svc (take 5000 (py_strip raw)) = Inr emb
        \<and> snd (qdrant_search svc emb 3 None bid) = Inr results"
  then show "snd (answer_with_selected_text svc q (Some raw) bid True) =
          Inr \<lparr>forced_context = ''[Selected Text]'' @ [nl] @ take 5000 (py_strip raw) @ [nl],
               st_selected_text = take 5000 (py_strip raw),
               additional_chunks = map (\<lambda>r.
                  \<lparr>ac_chunk_id = p_chunk_id (sp_payload r),
                   ac_text = p_text (sp_payload r),
                   ac_source = p_source_file (sp_payload r),
                   ac_score = sp_score r\<rparr>) results,
               st_mode = ''selected_text''\<rparr>"
    by (auto simp: answer_with_selected_text_def Let_def eff_defs split: sum.splits prod.splits if_splits)
qed

lemma answer_with_selected_text_ok:
  "answer_with_selected_text ok_services ''What is X?'' (Some '' X is a letter. '') None True
     = ([EmbedCall ''X is a letter.'', SearchCall [1] 3 None None],
        Inr \<lparr>forced_context = ''[Selected Text]'' @ [nl] @ ''X is a letter.'' @ [nl],
             st_selected_text = ''X is a letter.'',
             additional_chunks = [\<lparr>ac_chunk_id = ''book-0'', ac_text = replicate 201 CHR ''a'',
                                   ac_source = ''ch1.md'', ac_score = 1 / 2\<rparr>],
             st_mode = ''selected_text''\<rparr>)"
proof -
  have s: "py_strip '' X is a letter. '' = ''X is a letter.''"
    by (simp add: py_strip_def is_space_def)
  show ?thesis
    by (simp add: answer_with_selected_text_def Let_def s eff_defs ok_services_def example_point_def)
qed

theorem selected_passage_handler_witness:
  "py_strip '' X is a letter. '' = ''X is a letter.''
   \<and> client_embed ok_services (take 5000 (py_strip '' X is a letter. '')) = Inr [1]
   \<and> snd (qdrant_search ok_services [1] 3 None None) = Inr [example_point]
   \<and> answer_with_selected_text ok_services ''What is X?'' (Some '' X is a letter. '') None True
     = ([EmbedCall ''X is a letter.'', SearchCall [1] 3 None None],
        Inr \<lparr>forced_context = ''[Selected Text]'' @ [nl] @ ''X is a letter.'' @ [nl],
             st_selected_text = ''X is a letter.'',
             additional_chunks = [\<lparr>ac_chunk_id = ''book-0'', ac_text = replicate 201 CHR ''a'',
                                   ac_source = ''ch1.md'', ac_score = 1 / 2\<rparr>],
             st_mode = ''selected_text''\<rparr>)
   \<and> forced_context (projr (snd (answer_with_selected_text ok_services ''What is X?''
         (Some '' X is a letter. '') None True)))
       = ''[Selected Text]'' @ [nl] @ ''X is a letter.'' @ [nl]"
proof -
  have s: "py_strip '' X is a letter. '' = ''X is a letter.''"
    by (simp add: py_strip_def is_space_def)
  have e: "client_embed ok_services (take 5000 (py_strip '' X is a letter. '')) = Inr [1]"
    by (simp add: ok_services_def)
  have q: "snd (qdrant_search ok_services [1] 3 None None) = Inr [example_point]"
    by (simp add: qdrant_search_def ok_services_def)
  have r: "snd (answer_with_selected_text ok_services ''What is X?''
         (Some '' X is a letter. '') None True)
     = Inr \<lparr>forced_context = ''[Selected Text]'' @ [nl] @ ''X is a letter.'' @ [nl],
             st_selected_text = ''X is a letter.'',
             additional_chunks = [\<lparr>ac_chunk_id = ''book-0'', ac_text = replicate 201 CHR ''a'',
                                   ac_source = ''ch1.md'', ac_score = 1 / 2\<rparr>],
             st_mode = ''selected_text''\<rparr>"
    by (simp only: answer_with_selected_text_ok snd_conv)
  show ?thesis
    using s e q r
      selected_passage_handler[of ok_services "''What is X?''" "'' X is a letter. ''" None True
        "\<lparr>forced_context = ''[Selected Text]'' @ [nl] @ ''X is a letter.'' @ [nl],
          st_selected_text = ''X is a letter.'',
          additional_chunks = [\<lparr>ac_chunk_id = ''book-0'', ac_text = replicate 201 CHR ''a'',
                                ac_source = ''ch1.md'', ac_score = 1 / 2\<rparr>],
          st_mode = ''selected_text''\<rparr>" "[1]" "[example_point]"]
    by (simp add: answer_with_selected_text_ok)
qed

section \<open>Properties of segmentation\<close>

subsection \<open>Positions\<close>

lemma chunk_loop_invariant:
  assumes "I st"
    and "\<And>st p. I st \<Longrightarrow> p \<in> set ps \<Longrightarrow> I (chunk_step svc src st p)"
  shows "I (chunk_loop svc src st ps)"
  using assms by (induction ps arbitrary: st) auto

text \<open>The four outcomes of the loop body.\<close>

lemma chunk_step_cases:
  obtains
    (append) "int (length cur) + int (length p) \<le> chunk_size svc"
      "chunk_step svc src (chunks, cur, pos) p
         = (chunks, if cur \<noteq> [] then cur @ [nl, nl] @ p else p, pos)"
  | (first) "int (length cur) + int (length p) > chunk_size svc" "cur = []"
      "\<not> (chunk_overlap svc > 0 \<and> chunks \<noteq> [])"
      "chunk_step svc src (chunks, cur, pos) p = (chunks, p, pos)"
  | (close) "int (length cur) + int (length p) > chunk_size svc" "cur \<noteq> []"
      "\<not> chunk_overlap svc > 0"
      "chunk_step svc src (chunks, cur, pos) p
         = (chunks @ [make_chunk cur src pos], p, pos + 1)"
  | (seed) "int (length cur) + int (length p) > chunk_size svc"
      "chunk_overlap svc > 0" "cur = [] \<longrightarrow> chunks \<noteq> []"
      "chunk_step svc src (chunks, cur, pos) p
         = (if cur \<noteq> [] then chunks @ [make_chunk cur src pos] else chunks,
            get_overlap_text svc cur @ [nl, nl] @ p,
            if cur \<noteq> [] then pos + 1 else pos)"
proof (cases "int (length cur) + int (length p) > chunk_size svc")
  case False
  then show ?thesis by (intro append) (simp_all add: chunk_step_def)
next
  case big: True
  show ?thesis
  proof (cases "chunk_overlap svc > 0 \<and> (cur = [] \<longrightarrow> chunks \<noteq> [])")
    case True
    with big show ?thesis by (intro seed) (auto simp: chunk_step_def Let_def)
  next
    case False
    show ?thesis
    proof (cases "cur = []")
      case True
      with big False show ?thesis by (intro first) (auto simp: chunk_step_def Let_def)
    next
      case ne: False
      with big False show ?thesis by (intro close) (auto simp: chunk_step_def Let_def)
    qed
  qed
qed

lemma chunk_step_positions:
  assumes "pos = int (length chunks)"
    and "map c_position chunks = map int [0..<length chunks]"
    and "chunk_step svc src (chunks, cur, pos) p = (chunks', cur', pos')"
  shows "pos' = int (length chunks') \<and> map c_position chunks' = map int [0..<length chunks']"
proof -
  have ext: "map c_position (chunks @ [make_chunk cur src pos])
               = map int [0..<length (chunks @ [make_chunk cur src pos])]"
    using assms(1,2) by (simp add: make_chunk_def)
  show ?thesis
  proof (cases rule: chunk_step_cases[where cur=cur and p=p and svc=svc and chunks=chunks
                                        and src=src and pos=pos])
    case append
    with assms show ?thesis by auto
  next
    case first
    with assms show ?thesis by auto
  next
    case close
    with assms(3) have "chunks' = chunks @ [make_chunk cur src pos]" "pos' = pos + 1"
      by simp_all
    with ext assms(1) show ?thesis by simp
  next
    case seed
    show ?thesis
    proof (cases "cur = []")
      case True
      with seed assms show ?thesis by auto
    next
      case False
      with seed assms(3) have "chunks' = chunks @ [make_chunk cur src pos]" "pos' = pos + 1"
        by simp_all
      with ext assms(1) show ?thesis by simp
    qed
  qed
qed

lemma chunk_loop_positions:
  assumes "chunk_loop svc src ([], [], 0) ps = (chunks, cur, pos)"
  shows "pos = int (length chunks) \<and> map c_position chunks = map int [0..<length chunks]"
proof -
  let ?I = "\<lambda>st :: Chunk list \<times> string \<times> int. case st of (chunks, cur, pos) \<Rightarrow>
              pos = int (length chunks) \<and> map c_position chunks = map int [0..<length chunks]"
  have "?I (chunk_loop svc src ([], [], 0) ps)"
  proof (rule chunk_loop_invariant)
    show "?I ([], [], 0)" by simp
  next
    fix st p assume a: "?I st"
    obtain chunks cur pos where st: "st = (chunks, cur, pos)" by (cases st)
    obtain chunks' cur' pos' where st': "chunk_step svc src (chunks, cur, pos) p = (chunks', cur', pos')"
      by (cases "chunk_step svc src (chunks, cur, pos) p")
    from a st have "pos = int (length chunks)" "map c_position chunks = map int [0..<length chunks]"
      by simp_all
    from chunk_step_positions[OF this st'] show "?I (chunk_step svc src st p)"
      by (simp add: st st')
  qed
  with assms show ?thesis by simp
qed

lemma chunk_text_positions:
  "map c_position (chunk_text svc t src) = map int [0..<length (chunk_text svc t src)]"
proof -
  obtain chunks cur pos where
    l: "chunk_loop svc src ([], [], 0) (split_into_paragraphs t) = (chunks, cur, pos)"
    by (cases "chunk_loop svc src ([], [], 0) (split_into_paragraphs t)") auto
  from chunk_loop_positions[OF l] have
    p: "pos = int (length chunks)" "map c_position chunks = map int [0..<length chunks]"
    by simp_all
  show ?thesis
    using p by (simp add: chunk_text_def l make_chunk_def)
qed

lemma chunk_text_source: "list_all (\<lambda>c. c_source_file c = src) (chunk_text svc t src)"
proof -
  let ?I = "\<lambda>st :: Chunk list \<times> string \<times> int. case st of (chunks, cur, pos) \<Rightarrow> list_all (\<lambda>c. c_source_file c = src) chunks"
  have "?I (chunk_loop svc src ([], [], 0) (split_into_paragraphs t))"
  proof (rule chunk_loop_invariant)
    show "?I ([], [], 0)" by simp
  next
    fix st p assume a: "?I st"
    obtain chunks cur pos where st: "st = (chunks, cur, pos)" by (cases st)
    show "?I (chunk_step svc src st p)"
      unfolding st using a[unfolded st]
      by (cases rule: chunk_step_cases[where cur=cur and p=p and svc=svc and chunks=chunks and src=src and pos=pos])
         (auto simp: make_chunk_def)
  qed
  then show ?thesis
    by (auto simp: chunk_text_def make_chunk_def split: prod.splits)
qed

lemma strictly_increasing_upt: "sorted_wrt (<) (map int [0..<n])"
  by (simp add: sorted_wrt_map sorted_wrt_upt)

lemma renumber_positions:
  assumes "renumber pos cs = (cs', pos')"
  shows "pos' = pos + int (length cs) \<and> length cs' = length cs
         \<and> map c_position cs' = map (\<lambda>i. pos + int i) [0..<length cs]
         \<and> map c_source_file cs' = map c_source_file cs"
  using assms
proof (induction cs arbitrary: pos cs' pos')
  case Nil
  then show ?case by simp
next
  case (Cons c cs)
  obtain ds q where r: "renumber (pos + 1) cs = (ds, q)"
    by (cases "renumber (pos + 1) cs") auto
  from Cons.IH[OF r] have ih: "q = pos + 1 + int (length cs)" "length ds = length cs"
    "map c_position ds = map (\<lambda>i. pos + 1 + int i) [0..<length cs]"
    "map c_source_file ds = map c_source_file cs"
    by simp_all
  from Cons.prems r have c': "cs' = c\<lparr>c_position := pos\<rparr> # ds" and q: "pos' = q"
    by simp_all
  have "map (\<lambda>i. pos + int i) [0..<Suc (length cs)]
          = pos # map (\<lambda>i. pos + 1 + int i) [0..<length cs]"
    by (simp add: upt_rec[of 0 "Suc (length cs)"] map_Suc_upt[symmetric] del: upt_Suc)
  then show ?case
    using ih c' q by simp
qed

lemma process_files_positions:
  assumes "pos = int (length acc)" and "map c_position acc = map int [0..<length acc]"
  shows "map c_position (process_files svc acc pos files)
           = map int [0..<length (process_files svc acc pos files)]"
  using assms
proof (induction files arbitrary: acc pos)
  case Nil
  then show ?case by simp
next
  case (Cons f files)
  obtain path content where f: "f = (path, content)" by (cases f)
  show ?case
  proof (cases content)
    case (Inl e)
    with f Cons show ?thesis by simp
  next
    case (Inr t)
    obtain cs' pos' where r: "renumber pos (chunk_text svc t path) = (cs', pos')"
      by (cases "renumber pos (chunk_text svc t path)") auto
    from renumber_positions[OF r] have
      a: "pos' = pos + int (length (chunk_text svc t path))"
         "length cs' = length (chunk_text svc t path)"
         "map c_position cs' = map (\<lambda>i. pos + int i) [0..<length (chunk_text svc t path)]"
      by simp_all
    have "map c_position (acc @ cs') = map int [0..<length (acc @ cs')]"
    proof -
      have "map int [0..<length acc + length cs'] = map int [0..<length acc] @ map int [length acc..<length acc + length cs']"
        by (simp add: upt_add_eq_append[of 0])
      moreover have "map int [length acc..<length acc + length cs'] = map (\<lambda>i. int (length acc) + int i) [0..<length cs']"
        by (rule nth_equalityI) simp_all
      ultimately show ?thesis
        using Cons.prems a by simp
    qed
    moreover have "pos' = int (length (acc @ cs'))"
      using a Cons.prems by simp
    ultimately have "map c_position (process_files svc (acc @ cs') pos' files)
           = map int [0..<length (process_files svc (acc @ cs') pos' files)]"
      by (intro Cons.IH)
    with f Inr r show ?thesis by simp
  qed
qed

text \<open>
  Claim C7. The positions of the units that \<open>chunk_text\<close> produces are 0, 1, 2, ... in
  emission order, so they increase strictly, and every unit carries the source it was cut
  from. The ingestion run numbers the units of all its files again, 0, 1, 2, ... over the
  whole run, so positions increase strictly there too.
\<close>

theorem positions_sequential:
  "map c_position (chunk_text svc t src) = map int [0..<length (chunk_text svc t src)]
   \<and> sorted_wrt (<) (map c_position (chunk_text svc t src))
   \<and> list_all (\<lambda>c. c_source_file c = src) (chunk_text svc t src)
   \<and> map c_position (process_files svc [] 0 files)
       = map int [0..<length (process_files svc [] 0 files)]
   \<and> sorted_wrt (<) (map c_position (process_files svc [] 0 files))"
proof -
  have a: "map c_position (chunk_text svc t src) = map int [0..<length (chunk_text svc t src)]"
    by (rule chunk_text_positions)
  have b: "map c_position (process_files svc [] 0 files)
       = map int [0..<length (process_files svc [] 0 files)]"
    by (rule process_files_positions) simp_all
  show ?thesis
    using a b chunk_text_source[of src svc t]
    by (simp add: strictly_increasing_upt)
qed

subsection \<open>Words\<close>

lemma split_acc_words:
  assumes "w \<in> set (split_acc cur s)" and "list_all (\<lambda>c. \<not> is_space c) cur"
  shows "w \<noteq> [] \<and> list_all (\<lambda>c. \<not> is_space c) w"
  using assms
proof (induction s arbitrary: cur)
  case Nil
  then show ?case by (auto split: if_splits)
next
  case (Cons c s)
  show ?case
  proof (cases "is_space c")
    case True
    with Cons.prems have "w = cur \<and> cur \<noteq> [] \<or> w \<in> set (split_acc [] s)"
      by (auto split: if_splits)
    then show ?thesis
      using Cons.IH[of "[]"] Cons.prems(2) by auto
  next
    case False
    with Cons.prems have "w \<in> set (split_acc (cur @ [c]) s)"
      and "list_all (\<lambda>c. \<not> is_space c) (cur @ [c])"
      by simp_all
    then show ?thesis by (rule Cons.IH)
  qed
qed

lemma py_split_words:
  assumes "w \<in> set (py_split s)"
  shows "w \<noteq> []" and "list_all (\<lambda>c. \<not> is_space c) w"
  using split_acc_words[of w "[]" s] assms by (simp_all add: py_split_def)

lemma split_acc_nonempty:
  assumes "cur \<noteq> [] \<or> list_ex (\<lambda>c. \<not> is_space c) s"
  shows "split_acc cur s \<noteq> []"
  using assms by (induction s arbitrary: cur) auto

lemma split_acc_length:
  assumes "w \<in> set (split_acc cur s)"
  shows "length w \<le> length cur + length s"
  using assms
proof (induction s arbitrary: cur)
  case Nil
  then show ?case by (auto split: if_splits)
next
  case (Cons c s)
  show ?case
  proof (cases "is_space c")
    case True
    with Cons.prems have "w = cur \<or> w \<in> set (split_acc [] s)"
      by (auto split: if_splits)
    then show ?thesis
      using Cons.IH[of "[]"] by auto
  next
    case False
    with Cons.prems have "w \<in> set (split_acc (cur @ [c]) s)" by simp
    from Cons.IH[OF this] show ?thesis by simp
  qed
qed

lemma split_acc_append_space:
  assumes "is_space c"
  shows "split_acc cur (a @ c # b) = split_acc cur a @ split_acc [] b"
  using assms by (induction a arbitrary: cur) auto

lemma split_acc_word:
  assumes "list_all (\<lambda>c. \<not> is_space c) w"
  shows "split_acc cur w = (if cur @ w = [] then [] else [cur @ w])"
  using assms by (induction w arbitrary: cur) auto

lemma is_space_nl: "is_space nl"
  by (simp add: is_space_def nl_def)

lemma is_space_blank: "is_space CHR '' ''"
  by (simp add: is_space_def)

lemma py_split_paragraph_sep: "py_split (a @ nl # nl # p) = py_split a @ py_split p"
proof -
  have "split_acc [] (a @ nl # (nl # p)) = split_acc [] a @ split_acc [] (nl # p)"
    by (rule split_acc_append_space) (rule is_space_nl)
  then show ?thesis by (simp add: py_split_def is_space_nl)
qed

lemma py_split_join:
  assumes "list_all (\<lambda>w. w \<noteq> [] \<and> list_all (\<lambda>c. \<not> is_space c) w) ws"
  shows "py_split (py_join '' '' ws) = ws"
  using assms
proof (induction "'' ''" ws rule: py_join.induct)
  case 1
  then show ?case by (simp add: py_split_def)
next
  case (2 x)
  then show ?case by (simp add: py_split_def split_acc_word)
next
  case (3 x y ys)
  have "split_acc [] (x @ CHR '' '' # py_join '' '' (y # ys))
          = split_acc [] x @ split_acc [] (py_join '' '' (y # ys))"
    by (rule split_acc_append_space) (rule is_space_blank)
  with 3 show ?case by (simp add: py_split_def split_acc_word)
qed

lemma py_join_length:
  assumes "list_all (\<lambda>w. length w \<le> n) ws"
  shows "length (py_join '' '' ws) \<le> length ws * (n + 1)"
  using assms by (induction "'' ''" ws rule: py_join.induct) auto

lemma py_join_hd:
  assumes "ws \<noteq> []" and "hd ws \<noteq> []"
  shows "py_join sep ws \<noteq> []" and "hd (py_join sep ws) = hd (hd ws)"
  using assms by (induction sep ws rule: py_join.induct) auto

subsection \<open>Paragraphs and the overlap seed\<close>

lemma paragraph_proper:
  assumes "p \<in> set (split_into_paragraphs t)"
  shows "p \<noteq> []" and "\<not> is_space (hd p)" and "\<not> is_space (last p)"
proof -
  from assms obtain q where p: "p = py_strip q" and ne: "py_strip q \<noteq> []"
    by (auto simp: split_into_paragraphs_def)
  from ne show "p \<noteq> []" by (simp add: p)
  from py_strip_ends[OF ne] show "\<not> is_space (hd p)" and "\<not> is_space (last p)"
    by (simp_all add: p)
qed

text \<open>The words that seed the next buffer: the last \<open>chunk_overlap\<close> words of the closed buffer.\<close>

lemma overlap_text_words:
  assumes "chunk_overlap svc > 0"
  shows "\<exists>ws. get_overlap_text svc cur = py_join '' '' ws
            \<and> set ws \<subseteq> set (py_split cur)
            \<and> length ws \<le> nat (chunk_overlap svc)
            \<and> (py_split cur \<noteq> [] \<longrightarrow> ws \<noteq> [])"
proof -
  let ?ws = "drop (length (py_split cur) - nat (chunk_overlap svc)) (py_split cur)"
  have "get_overlap_text svc cur = py_join '' '' ?ws"
    using assms by (simp add: get_overlap_text_def Let_def)
  moreover have "set ?ws \<subseteq> set (py_split cur)" by (rule set_drop_subset)
  moreover have "length ?ws \<le> nat (chunk_overlap svc)" by simp
  moreover have "py_split cur \<noteq> [] \<longrightarrow> ?ws \<noteq> []"
  proof
    assume "py_split cur \<noteq> []"
    then have "0 < length (py_split cur)" by simp
    moreover from assms have "0 < nat (chunk_overlap svc)" by simp
    ultimately have "length (py_split cur) - nat (chunk_overlap svc) < length (py_split cur)"
      by arith
    then show "?ws \<noteq> []" by simp
  qed
  ultimately show ?thesis by blast
qed

lemma overlap_text_start:
  assumes "chunk_overlap svc > 0" and "cur \<noteq> []" and "\<not> is_space (hd cur)"
  shows "get_overlap_text svc cur \<noteq> []" and "\<not> is_space (hd (get_overlap_text svc cur))"
proof -
  from assms(2,3) have "list_ex (\<lambda>c. \<not> is_space c) cur"
    by (cases cur) auto
  then have ne: "py_split cur \<noteq> []"
    by (simp add: py_split_def split_acc_nonempty)
  from overlap_text_words[OF assms(1), of cur] ne obtain ws where
    ws: "get_overlap_text svc cur = py_join '' '' ws" "set ws \<subseteq> set (py_split cur)" "ws \<noteq> []"
    by blast
  then have "hd ws \<in> set (py_split cur)" by auto
  from py_split_words[OF this] have h: "hd ws \<noteq> []" "\<not> is_space (hd (hd ws))"
    by (auto simp: list_all_iff)
  from py_join_hd[OF ws(3) h(1)] h(2) ws(1)
  show "get_overlap_text svc cur \<noteq> []" and "\<not> is_space (hd (get_overlap_text svc cur))"
    by simp_all
qed

subsection \<open>Token estimate\<close>

lemma make_chunk_tokens:
  assumes "cur \<noteq> []" and "\<not> is_space (hd cur)" and "\<not> is_space (last cur)"
  shows "c_token_count (make_chunk cur src pos) = int (length (c_text (make_chunk cur src pos))) div 4"
  using py_strip_clean[OF assms] by (simp add: make_chunk_def estimate_tokens_def)

text \<open>
  The buffer never starts or ends with whitespace, and it is empty only before the first
  paragraph, when no unit has been closed.
\<close>

lemma chunk_step_clean:
  assumes p: "p \<noteq> []" "\<not> is_space (hd p)" "\<not> is_space (last p)"
    and cur: "cur = [] \<or> (\<not> is_space (hd cur) \<and> \<not> is_space (last cur))"
    and emp: "cur = [] \<longrightarrow> chunks = []"
    and toks: "list_all (\<lambda>c. c_token_count c = int (length (c_text c)) div 4) chunks"
    and step: "chunk_step svc src (chunks, cur, pos) p = (chunks', cur', pos')"
  shows "cur' \<noteq> [] \<and> \<not> is_space (hd cur') \<and> \<not> is_space (last cur')
         \<and> list_all (\<lambda>c. c_token_count c = int (length (c_text c)) div 4) chunks'"
proof (cases rule: chunk_step_cases[where cur=cur and p=p and svc=svc and chunks=chunks
                                      and src=src and pos=pos])
  case append
  with step have c: "cur' = (if cur \<noteq> [] then cur @ [nl, nl] @ p else p)" "chunks' = chunks"
    by simp_all
  show ?thesis
    using p cur toks by (auto simp: c)
next
  case first
  with step have c: "cur' = p" "chunks' = chunks" by simp_all
  show ?thesis using p toks by (simp add: c)
next
  case close
  with step have c: "cur' = p" "chunks' = chunks @ [make_chunk cur src pos]" by simp_all
  from close(2) cur have "c_token_count (make_chunk cur src pos)
      = int (length (c_text (make_chunk cur src pos))) div 4"
    by (intro make_chunk_tokens) auto
  then show ?thesis using p toks by (simp add: c)
next
  case seed
  from seed(3) emp have ne: "cur \<noteq> []" by auto
  with seed step have c: "cur' = get_overlap_text svc cur @ [nl, nl] @ p"
    "chunks' = chunks @ [make_chunk cur src pos]" by simp_all
  from ne cur have pc: "\<not> is_space (hd cur)" "\<not> is_space (last cur)" by auto
  have t: "c_token_count (make_chunk cur src pos)
      = int (length (c_text (make_chunk cur src pos))) div 4"
    using ne pc by (rule make_chunk_tokens)
  from overlap_text_start[OF seed(2) ne pc(1)]
  have s: "get_overlap_text svc cur \<noteq> []" "\<not> is_space (hd (get_overlap_text svc cur))" .
  show ?thesis
    using p toks t s by (simp add: c)
qed

lemma chunk_loop_clean:
  assumes "chunk_loop svc src ([], [], 0) (split_into_paragraphs t) = (chunks, cur, pos)"
  shows "(cur = [] \<or> (\<not> is_space (hd cur) \<and> \<not> is_space (last cur)))
         \<and> list_all (\<lambda>c. c_token_count c = int (length (c_text c)) div 4) chunks"
proof -
  let ?I = "\<lambda>st :: Chunk list \<times> string \<times> int. case st of (chunks, cur, pos) \<Rightarrow>
              (cur = [] \<or> (\<not> is_space (hd cur) \<and> \<not> is_space (last cur)))
              \<and> (cur = [] \<longrightarrow> chunks = [])
              \<and> list_all (\<lambda>c. c_token_count c = int (length (c_text c)) div 4) chunks"
  have "?I (chunk_loop svc src ([], [], 0) (split_into_paragraphs t))"
  proof (rule chunk_loop_invariant)
    show "?I ([], [], 0)" by simp
  next
    fix st p assume a: "?I st" and m: "p \<in> set (split_into_paragraphs t)"
    obtain chunks cur pos where st: "st = (chunks, cur, pos)" by (cases st)
    obtain chunks' cur' pos' where
      st': "chunk_step svc src (chunks, cur, pos) p = (chunks', cur', pos')"
      by (cases "chunk_step svc src (chunks, cur, pos) p")
    from a st have i: "cur = [] \<or> (\<not> is_space (hd cur) \<and> \<not> is_space (last cur))"
      "cur = [] \<longrightarrow> chunks = []"
      "list_all (\<lambda>c. c_token_count c = int (length (c_text c)) div 4) chunks"
      by simp_all
    from chunk_step_clean[OF paragraph_proper[OF m] i st']
    show "?I (chunk_step svc src st p)"
      by (simp add: st st')
  qed
  with assms show ?thesis by simp
qed

text \<open>
  Claim C5. The token estimate of every unit that \<open>chunk_text\<close> produces is the length of
  the unit's text divided by 4, rounded down. (The estimate is taken from the buffer and
  the text is the trimmed buffer; the buffer never starts or ends with whitespace, so the
  two have the same length.)
\<close>

theorem token_estimate_of_text:
  assumes "c \<in> set (chunk_text svc t src)"
  shows "c_token_count c = int (length (c_text c)) div 4"
proof -
  obtain chunks cur pos where
    l: "chunk_loop svc src ([], [], 0) (split_into_paragraphs t) = (chunks, cur, pos)"
    by (cases "chunk_loop svc src ([], [], 0) (split_into_paragraphs t)") auto
  from chunk_loop_clean[OF l] have
    cl: "cur = [] \<or> (\<not> is_space (hd cur) \<and> \<not> is_space (last cur))"
    and toks: "list_all (\<lambda>c. c_token_count c = int (length (c_text c)) div 4) chunks"
    by simp_all
  show ?thesis
  proof (cases "c \<in> set chunks")
    case True
    with toks show ?thesis by (simp add: list_all_iff)
  next
    case False
    with assms l have c: "c = make_chunk cur src pos" and ne: "py_strip cur \<noteq> []"
      by (auto simp: chunk_text_def split: if_splits)
    from ne have "cur \<noteq> []" by auto
    with cl show ?thesis
      unfolding c by (intro make_chunk_tokens) auto
  qed
qed

subsection \<open>Size of a unit\<close>

lemma py_split_length:
  assumes "w \<in> set (py_split s)"
  shows "length w \<le> length s"
  using split_acc_length[of w "[]" s] assms by (simp add: py_split_def)

lemma overlap_text_bound:
  assumes ov: "chunk_overlap svc > 0"
    and wb: "list_all (\<lambda>w. length w \<le> n) (py_split cur)"
  shows "length (get_overlap_text svc cur) \<le> nat (chunk_overlap svc) * (n + 1)"
    and "list_all (\<lambda>w. length w \<le> n) (py_split (get_overlap_text svc cur))"
proof -
  from overlap_text_words[OF ov, of cur] obtain ws where
    ws: "get_overlap_text svc cur = py_join '' '' ws" "set ws \<subseteq> set (py_split cur)"
        "length ws \<le> nat (chunk_overlap svc)"
    by blast
  from ws(2) wb have b: "list_all (\<lambda>w. length w \<le> n) ws"
    by (auto simp: list_all_iff)
  have "length (py_join '' '' ws) \<le> length ws * (n + 1)"
    using b by (rule py_join_length)
  also have "\<dots> \<le> nat (chunk_overlap svc) * (n + 1)"
    using ws(3) by (rule mult_le_mono1)
  finally show "length (get_overlap_text svc cur) \<le> nat (chunk_overlap svc) * (n + 1)"
    by (simp add: ws(1))
  have "list_all (\<lambda>w. w \<noteq> [] \<and> list_all (\<lambda>c. \<not> is_space c) w) ws"
    using ws(2) py_split_words by (auto simp: list_all_iff)
  then have "py_split (py_join '' '' ws) = ws" by (rule py_split_join)
  with b show "list_all (\<lambda>w. length w \<le> n) (py_split (get_overlap_text svc cur))"
    by (simp add: ws(1))
qed

lemma make_chunk_bound:
  assumes "int (length cur) \<le> B"
  shows "c_token_count (make_chunk cur src pos) \<le> B div 4"
  using assms by (simp add: make_chunk_def estimate_tokens_def zdiv_mono1)

lemma chunk_step_bound:
  fixes svc :: ChunkingService
  defines "B \<equiv> chunk_size svc + 2 + max 0 (chunk_overlap svc) * (chunk_size svc + 1)"
  assumes p: "int (length p) \<le> chunk_size svc"
    and len: "int (length cur) \<le> B"
    and wb: "list_all (\<lambda>w. length w \<le> nat (chunk_size svc)) (py_split cur)"
    and toks: "list_all (\<lambda>c. c_token_count c \<le> B div 4) chunks"
    and step: "chunk_step svc src (chunks, cur, pos) p = (chunks', cur', pos')"
  shows "int (length cur') \<le> B
         \<and> list_all (\<lambda>w. length w \<le> nat (chunk_size svc)) (py_split cur')
         \<and> list_all (\<lambda>c. c_token_count c \<le> B div 4) chunks'"
proof -
  define M where "M = max 0 (chunk_overlap svc) * (chunk_size svc + 1)"
  have B: "B = chunk_size svc + 2 + M" by (simp add: B_def M_def)
  from p have cs: "0 \<le> chunk_size svc" by linarith
  then have nn: "0 \<le> M" by (simp add: M_def)
  have pB: "int (length p) \<le> B" using p nn B by linarith
  have pw: "list_all (\<lambda>w. length w \<le> nat (chunk_size svc)) (py_split p)"
  proof -
    have "length w \<le> nat (chunk_size svc)" if "w \<in> set (py_split p)" for w
      using py_split_length[OF that] p by linarith
    then show ?thesis by (simp add: list_all_iff)
  qed
  have mk: "c_token_count (make_chunk cur src pos) \<le> B div 4"
    using len by (rule make_chunk_bound)
  show ?thesis
  proof (cases rule: chunk_step_cases[where cur=cur and p=p and svc=svc and chunks=chunks
                                        and src=src and pos=pos])
    case append
    with step have c: "cur' = (if cur \<noteq> [] then cur @ [nl, nl] @ p else p)" "chunks' = chunks"
      by simp_all
    have "int (length cur') \<le> chunk_size svc + 2"
      using append(1) by (simp add: c)
    then have "int (length cur') \<le> B" using nn B by linarith
    moreover have "list_all (\<lambda>w. length w \<le> nat (chunk_size svc)) (py_split cur')"
      using wb pw by (simp add: c py_split_paragraph_sep)
    ultimately show ?thesis using toks by (simp add: c)
  next
    case first
    with step have c: "cur' = p" "chunks' = chunks" by simp_all
    show ?thesis using pB pw toks by (simp add: c)
  next
    case close
    with step have c: "cur' = p" "chunks' = chunks @ [make_chunk cur src pos]" by simp_all
    show ?thesis using pB pw toks mk by (simp add: c)
  next
    case seed
    with step have c: "cur' = get_overlap_text svc cur @ [nl, nl] @ p"
      and ch: "chunks' = (if cur \<noteq> [] then chunks @ [make_chunk cur src pos] else chunks)"
      by simp_all
    from overlap_text_bound[OF seed(2) wb]
    have s1: "length (get_overlap_text svc cur) \<le> nat (chunk_overlap svc) * (nat (chunk_size svc) + 1)"
      and s2: "list_all (\<lambda>w. length w \<le> nat (chunk_size svc)) (py_split (get_overlap_text svc cur))"
      by simp_all
    have "int (nat (chunk_overlap svc) * (nat (chunk_size svc) + 1))
            = chunk_overlap svc * (chunk_size svc + 1)"
      using seed(2) cs by (simp add: algebra_simps)
    moreover have "M = chunk_overlap svc * (chunk_size svc + 1)"
      using seed(2) by (simp add: M_def)
    ultimately have "int (length (get_overlap_text svc cur)) \<le> M"
      using s1 by linarith
    moreover have "int (length cur') = int (length (get_overlap_text svc cur)) + 2 + int (length p)"
      by (simp add: c)
    ultimately have "int (length cur') \<le> B"
      using p B by linarith
    moreover have "list_all (\<lambda>w. length w \<le> nat (chunk_size svc)) (py_split cur')"
      using s2 pw by (simp add: c py_split_paragraph_sep)
    moreover have "list_all (\<lambda>c. c_token_count c \<le> B div 4) chunks'"
      using toks mk by (simp add: ch)
    ultimately show ?thesis by simp
  qed
qed

lemma chunk_loop_bound:
  fixes svc :: ChunkingService
  defines "B \<equiv> chunk_size svc + 2 + max 0 (chunk_overlap svc) * (chunk_size svc + 1)"
  assumes ps: "list_all (\<lambda>p. int (length p) \<le> chunk_size svc) ps"
    and l: "chunk_loop svc src ([], [], 0) ps = (chunks, cur, pos)"
  shows "(ps \<noteq> [] \<longrightarrow> int (length cur) \<le> B)
         \<and> list_all (\<lambda>c. c_token_count c \<le> B div 4) chunks"
proof (cases ps)
  case Nil
  with l show ?thesis by simp
next
  case (Cons p0 ps0)
  from ps Cons have "int (length p0) \<le> chunk_size svc" by simp
  then have cs: "0 \<le> chunk_size svc" by linarith
  then have "0 \<le> max 0 (chunk_overlap svc) * (chunk_size svc + 1)" by simp
  with cs have B0: "0 \<le> B" unfolding B_def by linarith
  let ?I = "\<lambda>st :: Chunk list \<times> string \<times> int. case st of (chunks, cur, pos) \<Rightarrow>
              int (length cur) \<le> B
              \<and> list_all (\<lambda>w. length w \<le> nat (chunk_size svc)) (py_split cur)
              \<and> list_all (\<lambda>c. c_token_count c \<le> B div 4) chunks"
  have "?I (chunk_loop svc src ([], [], 0) ps)"
  proof (rule chunk_loop_invariant)
    show "?I ([], [], 0)" using B0 by (simp add: py_split_def)
  next
    fix st p assume a: "?I st" and m: "p \<in> set ps"
    obtain chunks cur pos where st: "st = (chunks, cur, pos)" by (cases st)
    obtain chunks' cur' pos' where
      st': "chunk_step svc src (chunks, cur, pos) p = (chunks', cur', pos')"
      by (cases "chunk_step svc src (chunks, cur, pos) p")
    from m ps have p: "int (length p) \<le> chunk_size svc" by (simp add: list_all_iff)
    from a st have i: "int (length cur) \<le> B"
      "list_all (\<lambda>w. length w \<le> nat (chunk_size svc)) (py_split cur)"
      "list_all (\<lambda>c. c_token_count c \<le> B div 4) chunks"
      by simp_all
    from chunk_step_bound[OF p i[unfolded B_def] st'[unfolded B_def]]
    show "?I (chunk_step svc src st p)"
      by (simp add: st st' B_def)
  qed
  with l show ?thesis by simp
qed

text \<open>
  How far a unit can grow. When no paragraph of the input is longer than \<open>chunk_size\<close>
  characters, the token estimate of a unit is at most
  \<open>(chunk_size + 2 + chunk_overlap * (chunk_size + 1)) div 4\<close>, a non-positive overlap
  counting as 0: the size check is made before a paragraph is appended and counts neither
  the paragraph separator nor the \<open>chunk_overlap\<close> words that seed a new buffer.
\<close>

lemma unit_growth_bound:
  assumes "list_all (\<lambda>p. int (length p) \<le> chunk_size svc) (split_into_paragraphs t)"
    and "c \<in> set (chunk_text svc t src)"
  shows "c_token_count c
           \<le> (chunk_size svc + 2 + max 0 (chunk_overlap svc) * (chunk_size svc + 1)) div 4"
proof -
  obtain chunks cur pos where
    l: "chunk_loop svc src ([], [], 0) (split_into_paragraphs t) = (chunks, cur, pos)"
    by (cases "chunk_loop svc src ([], [], 0) (split_into_paragraphs t)") auto
  from chunk_loop_bound[OF assms(1) l] have
    len: "split_into_paragraphs t \<noteq> [] \<longrightarrow> int (length cur)
            \<le> chunk_size svc + 2 + max 0 (chunk_overlap svc) * (chunk_size svc + 1)"
    and toks: "list_all (\<lambda>c. c_token_count c
            \<le> (chunk_size svc + 2 + max 0 (chunk_overlap svc) * (chunk_size svc + 1)) div 4) chunks"
    by simp_all
  show ?thesis
  proof (cases "c \<in> set chunks")
    case True
    with toks show ?thesis by (simp add: list_all_iff)
  next
    case False
    with assms(2) l have c: "c = make_chunk cur src pos" and ne: "py_strip cur \<noteq> []"
      by (auto simp: chunk_text_def split: if_splits)
    from ne have "cur \<noteq> []" by auto
    with l have "split_into_paragraphs t \<noteq> []" by auto
    with len show ?thesis
      unfolding c by (intro make_chunk_bound) simp
  qed
qed

text \<open>
  An input of one paragraph gives one unit, whose text is the paragraph, however long it
  is: a paragraph above \<open>chunk_size\<close> is neither split nor rejected.
\<close>

lemma single_paragraph_one_unit:
  assumes "split_into_paragraphs t = [p]"
  shows "chunk_text svc t src = [make_chunk p src 0]"
    and "c_text (make_chunk p src 0) = p"
    and "c_token_count (make_chunk p src 0) = int (length p) div 4"
proof -
  from assms have m: "p \<in> set (split_into_paragraphs t)" by simp
  from paragraph_proper[OF m] have s: "py_strip p = p" and ne: "p \<noteq> []"
    by (simp_all add: py_strip_clean)
  have "chunk_loop svc src ([], [], 0) [p] = ([], p, 0)"
    by (simp add: chunk_step_def Let_def)
  then show "chunk_text svc t src = [make_chunk p src 0]"
    using s ne by (simp add: chunk_text_def assms)
  show "c_text (make_chunk p src 0) = p"
    using s by (simp add: make_chunk_def)
  show "c_token_count (make_chunk p src 0) = int (length p) div 4"
    by (simp add: make_chunk_def estimate_tokens_def)
qed

lemma three_paragraphs_chunks:
  "chunk_text test_service three_paragraphs ''book.md'' =
     [\<lparr>c_text = replicate 60 CHR ''A'', c_source_file = ''book.md'', c_chapter = None,
       c_section = None, c_position = 0, c_token_count = 15, c_embedding = None\<rparr>,
      \<lparr>c_text = replicate 60 CHR ''A'' @ [nl, nl] @ replicate 60 CHR ''B'',
       c_source_file = ''book.md'', c_chapter = None,
       c_section = None, c_position = 1, c_token_count = 30, c_embedding = None\<rparr>,
      \<lparr>c_text = replicate 60 CHR ''A'' @ '' '' @ replicate 60 CHR ''B'' @ [nl, nl]
                @ replicate 60 CHR ''C'',
       c_source_file = ''book.md'', c_chapter = None,
       c_section = None, c_position = 2, c_token_count = 45, c_embedding = None\<rparr>]"
  by code_simp

lemma five_paragraphs_split:
  "split_into_paragraphs five_paragraphs
     = [replicate 100 CHR ''a'', replicate 100 CHR ''b'', replicate 100 CHR ''c'',
        replicate 100 CHR ''d'', replicate 100 CHR ''e'']"
  by code_simp

lemma five_paragraphs_tokens:
  "map c_token_count (chunk_text test_service five_paragraphs ''test.txt'')
     = [25, 50, 75, 101, 126]"
  by code_simp

lemma test_fixed_size_tokens:
  "map c_token_count (chunk_text test_service test_fixed_size_text ''test.txt'')
     = [50, 100, 150]"
  by code_simp

text \<open>
  Claim C4, which the code does not meet. The claim bounds the token estimate of every
  unit by \<open>chunk_size / 4\<close> unless a paragraph alone exceeds \<open>chunk_size\<close>. With the service
  of the repository's unit tests (\<open>chunk_size = 100\<close>, an overlap of 20 words), five
  paragraphs of 100 characters each, none above the limit, give units with the token
  estimates 25, 50, 75, 101 and 126: a new buffer is seeded with the last 20 words of the
  closed one, whatever their length, and is not checked against \<open>chunk_size\<close>, so every unit
  carries the whole text before it. The test \<open>test_fixed_size_chunking\<close> asserts
  \<open>token_count <= chunk_size\<close> for every unit; on that test's own text the estimates are
  50, 100 and 150.
\<close>

theorem segmentation_exceeds_size_limit:
  "ChunkingService_init (Some 100) (Some 20) 500 50 = test_service
   \<and> list_all (\<lambda>p. int (length p) \<le> chunk_size test_service)
        (split_into_paragraphs five_paragraphs)
   \<and> map c_token_count (chunk_text test_service five_paragraphs ''test.txt'')
       = [25, 50, 75, 101, 126]
   \<and> \<not> list_all (\<lambda>k. real_of_int k \<le> real_of_int (chunk_size test_service) / 4)
          (map c_token_count (chunk_text test_service five_paragraphs ''test.txt''))
   \<and> \<not> list_all (\<lambda>k. k \<le> chunk_size test_service)
          (map c_token_count (chunk_text test_service five_paragraphs ''test.txt''))
   \<and> map c_token_count (chunk_text test_service test_fixed_size_text ''test.txt'')
       = [50, 100, 150]
   \<and> \<not> list_all (\<lambda>k. k \<le> chunk_size test_service)
          (map c_token_count (chunk_text test_service test_fixed_size_text ''test.txt''))"
proof -
  have i: "ChunkingService_init (Some 100) (Some 20) 500 50 = test_service"
    by (simp add: ChunkingService_init_def test_service_def)
  have s: "chunk_size test_service = 100"
    by (simp add: test_service_def)
  show ?thesis
    unfolding five_paragraphs_tokens test_fixed_size_tokens five_paragraphs_split s i
    by simp
qed

theorem token_estimate_of_text_witness:
  "chunk_text test_service three_paragraphs ''book.md'' ! 1
        \<in> set (chunk_text test_service three_paragraphs ''book.md'')
   \<and> length (c_text (chunk_text test_service three_paragraphs ''book.md'' ! 1)) = 122
   \<and> c_token_count (chunk_text test_service three_paragraphs ''book.md'' ! 1) = 30
   \<and> c_token_count (chunk_text test_service three_paragraphs ''book.md'' ! 1)
       = int (length (c_text (chunk_text test_service three_paragraphs ''book.md'' ! 1))) div 4"
proof -
  have h: "chunk_text test_service three_paragraphs ''book.md'' ! 1
        \<in> set (chunk_text test_service three_paragraphs ''book.md'')"
    by (simp add: three_paragraphs_chunks)
  have a: "length (c_text (chunk_text test_service three_paragraphs ''book.md'' ! 1)) = 122"
    "c_token_count (chunk_text test_service three_paragraphs ''book.md'' ! 1) = 30"
    by (simp_all add: three_paragraphs_chunks)
  show ?thesis
    using h a token_estimate_of_text[OF h]
    by (simp only: simp_thms)
qed

end
